theory Spec2Isabelle
  imports Complex_Main "HOL-Library.Sublist"
begin

section \<open>Python values and strings\<close>

text \<open>
  A Python \<open>str\<close> is a sequence of Unicode code points; a code point is a natural number.
  \<open>str\<close> turns an ASCII literal into such a sequence, so that \<open>str ''cdi''\<close> is the
  Python literal \<open>"cdi"\<close>; the few non-ASCII characters of the module are given by number.
\<close>

type_synonym pystr = "nat list"

definition str :: "string \<Rightarrow> pystr" where
  "str s = map of_char s"

text \<open>
  The values that reach the pipeline: what \<open>json.load\<close> produces (\<open>None\<close>, booleans,
  integers, floats, strings, lists, dictionaries with string keys), the float \<open>nan\<close> (the
  \<open>NaN\<close> of a document, and what pandas stores for a missing cell), and the \<open>Timestamp\<close>
  and \<open>NaT\<close> of a date column. A finite float is represented by its exact value; infinities
  are not represented. A dictionary is an association list in insertion order.
\<close>

datatype pyval =
    PNone
  | PBool bool
  | PInt int
  | PFloat rat
  | PNaN
  | PStr pystr
  | PList "pyval list"
  | PDict "(pystr \<times> pyval) list"
  | PTimestamp int
  | PNaT

datatype py_error = ValueError | TypeError | AttributeError | KeyError

text \<open>\<open>isinstance(x, str)\<close>\<close>

fun is_str :: "pyval \<Rightarrow> bool" where
  "is_str (PStr s) = True"
| "is_str _ = False"

text \<open>Truth value of a Python value, as \<open>if x\<close> and \<open>not x\<close> test it.\<close>

fun truthy :: "pyval \<Rightarrow> bool" where
  "truthy PNone = False"
| "truthy (PBool b) = b"
| "truthy (PInt i) = (i \<noteq> 0)"
| "truthy (PFloat q) = (q \<noteq> 0)"
| "truthy PNaN = True"
| "truthy (PStr s) = (s \<noteq> [])"
| "truthy (PList xs) = (xs \<noteq> [])"
| "truthy (PDict kvs) = (kvs \<noteq> [])"
| "truthy (PTimestamp t) = True"
| "truthy PNaT = True"

text \<open>
  The methods of \<open>str\<close> and the functions of \<open>re\<close> work on a string. On another value,
  \<open>x.lower()\<close> raises \<open>AttributeError\<close> and \<open>re.sub(p, r, x)\<close> raises \<open>TypeError\<close>: \<open>as_str\<close>
  gives the string, or the error of the operation that is applied first.
\<close>

fun as_str :: "py_error \<Rightarrow> pyval \<Rightarrow> py_error + pystr" where
  "as_str e (PStr s) = Inr s"
| "as_str e _ = Inl e"

text \<open>\<open>needle in haystack\<close> on strings: a contiguous occurrence.\<close>

fun startswith :: "pystr \<Rightarrow> pystr \<Rightarrow> bool" where
  "startswith s [] = True"
| "startswith [] (c # cs) = False"
| "startswith (d # ds) (c # cs) = (d = c \<and> startswith ds cs)"

fun str_in :: "pystr \<Rightarrow> pystr \<Rightarrow> bool" where
  "str_in needle [] = (needle = [])"
| "str_in needle (c # cs) = (startswith (c # cs) needle \<or> str_in needle cs)"

text \<open>
  The Unicode tables behind \<open>str.lower\<close>, \<open>\s\<close>, \<open>\d\<close>, \<open>\w\<close> and \<open>float\<close> belong to
  the Python runtime, not to the repository. Every function below takes them as the
  parameter \<open>U\<close>, so each theorem holds whatever the tables are. \<open>str.lower\<close> is a function
  of the whole string (its result for a character can depend on the neighbours).
\<close>

record unicode_db =
  u_lower :: "pystr \<Rightarrow> pystr"
  u_isspace :: "nat \<Rightarrow> bool"
  u_isdecimal :: "nat \<Rightarrow> bool"
  u_isalnum :: "nat \<Rightarrow> bool"
  u_decimal :: "nat \<Rightarrow> nat"

text \<open>
  \<open>basic_db\<close> is used to run the functions on concrete texts. It agrees with CPython's
  tables on the code points below 256 (Basic Latin and Latin-1) and on the euro sign.
\<close>

definition basic_db :: unicode_db where
  "basic_db = \<lparr>
     u_lower = map (\<lambda>c. if (65 \<le> c \<and> c \<le> 90) \<or> (192 \<le> c \<and> c \<le> 222 \<and> c \<noteq> 215)
                          then c + 32 else c),
     u_isspace = (\<lambda>c. (9 \<le> c \<and> c \<le> 13) \<or> (28 \<le> c \<and> c \<le> 32) \<or> c = 133 \<or> c = 160),
     u_isdecimal = (\<lambda>c. 48 \<le> c \<and> c \<le> 57),
     u_isalnum = (\<lambda>c. (48 \<le> c \<and> c \<le> 57) \<or> (65 \<le> c \<and> c \<le> 90) \<or> (97 \<le> c \<and> c \<le> 122)
                     \<or> c \<in> set [170, 178, 179, 181, 185, 186, 188, 189, 190]
                     \<or> (192 \<le> c \<and> c \<le> 214) \<or> (216 \<le> c \<and> c \<le> 246)
                     \<or> (248 \<le> c \<and> c \<le> 255)),
     u_decimal = (\<lambda>c. c - 48) \<rparr>"

section \<open>Regular expressions as the module uses them\<close>

text \<open>
  The patterns of \<open>transformation.py\<close> are built from literal characters, \<open>.\<close>, character
  sets with \<open>\s\<close>, \<open>\d\<close>, \<open>\w\<close>, the word boundary \<open>\b\<close>, sequence, alternation and the
  greedy and lazy star. \<open>rmatch\<close> is the backtracking matcher of \<open>re\<close>: from a cursor
  (the character before the position, and the text from the position on) it lists every
  way the pattern can match, in the order in which backtracking tries them, so the head
  of the list is the match \<open>re\<close> reports.
\<close>

datatype citem = Ch nat | Space | Digit | Word

datatype regex =
    Eps
  | Sym nat
  | Dot
  | OneOf "citem list"
  | NoneOf "citem list"
  | Bnd
  | Seq regex regex
  | Alt regex regex
  | Star regex
  | LazyStar regex

abbreviation Plus :: "regex \<Rightarrow> regex" where
  "Plus r \<equiv> Seq r (Star r)"

abbreviation Opt :: "regex \<Rightarrow> regex" where
  "Opt r \<equiv> Alt r Eps"

fun lit :: "pystr \<Rightarrow> regex" where
  "lit [] = Eps"
| "lit (c # cs) = Seq (Sym c) (lit cs)"

type_synonym cursor = "nat option \<times> pystr"

fun in_item :: "unicode_db \<Rightarrow> nat \<Rightarrow> citem \<Rightarrow> bool" where
  "in_item U c (Ch d) = (c = d)"
| "in_item U c Space = u_isspace U c"
| "in_item U c Digit = u_isdecimal U c"
| "in_item U c Word = (u_isalnum U c \<or> c = 95)"

fun is_word :: "unicode_db \<Rightarrow> nat option \<Rightarrow> bool" where
  "is_word U None = False"
| "is_word U (Some c) = in_item U c Word"

fun one :: "(nat \<Rightarrow> bool) \<Rightarrow> cursor \<Rightarrow> cursor list" where
  "one P (p, []) = []"
| "one P (p, c # cs) = (if P c then [(Some c, cs)] else [])"

fun nxt :: "pystr \<Rightarrow> nat option" where
  "nxt [] = None"
| "nxt (c # cs) = Some c"

function rmatch :: "unicode_db \<Rightarrow> regex \<Rightarrow> cursor \<Rightarrow> cursor list" where
  "rmatch U Eps cur = [cur]"
| "rmatch U (Sym d) cur = one (\<lambda>c. c = d) cur"
| "rmatch U Dot cur = one (\<lambda>c. c \<noteq> 10) cur"
| "rmatch U (OneOf its) cur = one (\<lambda>c. list_ex (in_item U c) its) cur"
| "rmatch U (NoneOf its) cur = one (\<lambda>c. \<not> list_ex (in_item U c) its) cur"
| "rmatch U Bnd cur = (if is_word U (fst cur) \<noteq> is_word U (nxt (snd cur)) then [cur] else [])"
| "rmatch U (Seq r1 r2) cur = concat (map (rmatch U r2) (rmatch U r1 cur))"
| "rmatch U (Alt r1 r2) cur = rmatch U r1 cur @ rmatch U r2 cur"
| "rmatch U (Star r) cur =
     concat (map (\<lambda>c'. if length (snd c') < length (snd cur) then rmatch U (Star r) c' else [])
                 (rmatch U r cur)) @ [cur]"
| "rmatch U (LazyStar r) cur =
     cur # concat (map (\<lambda>c'. if length (snd c') < length (snd cur)
                              then rmatch U (LazyStar r) c' else [])
                       (rmatch U r cur))"
  by pat_completeness auto
termination
  by (relation "measures [\<lambda>(U, r, cur). size r, \<lambda>(U, r, cur). length (snd cur)]") auto

text \<open>\<open>re.search\<close>: is there a position from which the pattern matches.\<close>

fun search_from :: "unicode_db \<Rightarrow> regex \<Rightarrow> nat option \<Rightarrow> pystr \<Rightarrow> bool" where
  "search_from U r p [] = (rmatch U r (p, []) \<noteq> [])"
| "search_from U r p (c # cs) = (rmatch U r (p, c # cs) \<noteq> [] \<or> search_from U r (Some c) cs)"

definition re_search :: "unicode_db \<Rightarrow> regex \<Rightarrow> pystr \<Rightarrow> bool" where
  "re_search U r s = search_from U r None s"

text \<open>
  \<open>re.sub\<close> with a constant replacement: the leftmost match is replaced and the scan goes
  on behind it; where nothing matches, the character is copied. None of the patterns of
  the module matches the empty string; for a pattern that does, the replacement is put
  in and the scan steps over one character.
\<close>

function re_sub_from :: "unicode_db \<Rightarrow> regex \<Rightarrow> pystr \<Rightarrow> cursor \<Rightarrow> pystr" where
  "re_sub_from U r repl (p, s) =
     (case rmatch U r (p, s) of
        [] \<Rightarrow> (case s of [] \<Rightarrow> [] | c # cs \<Rightarrow> c # re_sub_from U r repl (Some c, cs))
      | e # _ \<Rightarrow>
          if length (snd e) < length s then repl @ re_sub_from U r repl e
          else (case s of [] \<Rightarrow> repl | c # cs \<Rightarrow> repl @ c # re_sub_from U r repl (Some c, cs)))"
  by pat_completeness auto
termination
  by (relation "measure (\<lambda>(U, r, repl, cur). length (snd cur))") auto

definition re_sub :: "unicode_db \<Rightarrow> regex \<Rightarrow> pystr \<Rightarrow> pystr \<Rightarrow> pystr" where
  "re_sub U r repl s = re_sub_from U r repl (None, s)"

text \<open>
  \<open>re.findall\<close> for a pattern \<open>(g)t\<close> with one group: the list of the texts of the group.
  The match of \<open>(g)t\<close> that backtracking finds first is the first way of matching \<open>g\<close>
  after which \<open>t\<close> matches, followed by the first way of matching \<open>t\<close>.
\<close>

fun match_group :: "unicode_db \<Rightarrow> regex \<Rightarrow> cursor list \<Rightarrow> (cursor \<times> cursor) option" where
  "match_group U t [] = None"
| "match_group U t (g # gs) =
     (case rmatch U t g of [] \<Rightarrow> match_group U t gs | e # _ \<Rightarrow> Some (g, e))"

function findall_from :: "unicode_db \<Rightarrow> regex \<Rightarrow> regex \<Rightarrow> cursor \<Rightarrow> pystr list" where
  "findall_from U g t (p, s) =
     (case match_group U t (rmatch U g (p, s)) of
        None \<Rightarrow> (case s of [] \<Rightarrow> [] | c # cs \<Rightarrow> findall_from U g t (Some c, cs))
      | Some (ge, e) \<Rightarrow>
          take (length s - length (snd ge)) s #
          (if length (snd e) < length s then findall_from U g t e
           else (case s of [] \<Rightarrow> [] | c # cs \<Rightarrow> findall_from U g t (Some c, cs))))"
  by pat_completeness auto
termination
  by (relation "measure (\<lambda>(U, g, t, cur). length (snd cur))") auto

definition re_findall :: "unicode_db \<Rightarrow> regex \<Rightarrow> regex \<Rightarrow> pystr \<Rightarrow> pystr list" where
  "re_findall U g t s = findall_from U g t (None, s)"

text \<open>\<open>str.strip()\<close> and \<open>str.replace\<close> of one character by another.\<close>

definition str_strip :: "unicode_db \<Rightarrow> pystr \<Rightarrow> pystr" where
  "str_strip U s = rev (dropWhile (u_isspace U) (rev (dropWhile (u_isspace U) s)))"

definition str_replace :: "nat \<Rightarrow> nat \<Rightarrow> pystr \<Rightarrow> pystr" where
  "str_replace a b s = map (\<lambda>c. if c = a then b else c) s"

section \<open>transformation.py: the field normalisers\<close>

subsection \<open>clean_text_field\<close>

text \<open>The patterns \<open><.*?>\<close> and \<open>\s+\<close>.\<close>

definition tag_re :: regex where
  "tag_re = Seq (Sym 60) (Seq (LazyStar Dot) (Sym 62))"

definition spaces_re :: regex where
  "spaces_re = Plus (OneOf [Space])"

definition clean_text_field :: "unicode_db \<Rightarrow> pyval \<Rightarrow> py_error + pystr" where
  "clean_text_field U text =
     (if \<not> is_str text then Inr []
      else (case as_str TypeError text of
              Inl e \<Rightarrow> Inl e
            | Inr s \<Rightarrow>
                (let text = re_sub U tag_re (str '' '') s;
                     text = re_sub U spaces_re (str '' '') text
                 in Inr (str_strip U text))))"

subsection \<open>extract_salary_info\<close>

text \<open>
  The pattern \<open>(\d+[\s\d]*[\d,.]*)(?:\s*[E$P]|\s*euros?|\s*euro)\<close>, where \<open>E\<close> stands for
  the euro sign (U+20AC, code point 8364) and \<open>P\<close> for the pound sign (U+00A3, code point
  163): its group, and what follows the group.
\<close>

definition amount_group :: regex where
  "amount_group =
     Seq (Plus (OneOf [Digit]))
         (Seq (Star (OneOf [Space, Digit])) (Star (OneOf [Digit, Ch 44, Ch 46])))"

definition amount_tail :: regex where
  "amount_tail =
     Alt (Seq (Star (OneOf [Space])) (OneOf [Ch 8364, Ch 36, Ch 163]))
    (Alt (Seq (Star (OneOf [Space])) (Seq (lit (str ''euro'')) (Opt (Sym 115))))
         (Seq (Star (OneOf [Space])) (lit (str ''euro''))))"

text \<open>
  \<open>float(s)\<close> for a string of decimal digits and full stops, the only strings that reach
  it here (\<open>re.sub(r'[^\d.]', '', ...)\<close> removes every other character): it is a number
  when there is at most one full stop and at least one digit, and \<open>ValueError\<close> otherwise.
  The value is the exact decimal; Python rounds it to the nearest double.
\<close>

definition digits_value :: "unicode_db \<Rightarrow> pystr \<Rightarrow> nat" where
  "digits_value U ds = foldl (\<lambda>acc c. 10 * acc + u_decimal U c) 0 ds"

definition py_float :: "unicode_db \<Rightarrow> pystr \<Rightarrow> py_error + rat" where
  "py_float U s =
     (let ip = takeWhile (\<lambda>c. c \<noteq> 46) s;
          fp = drop (length ip + 1) s
      in if list_ex (\<lambda>c. c = 46) fp \<or> (ip = [] \<and> fp = [])
            \<or> \<not> list_all (\<lambda>c. u_isdecimal U c \<or> c = 46) s
         then Inl ValueError
         else Inr (of_nat (digits_value U ip) + of_nat (digits_value U fp) / 10 ^ length fp))"

text \<open>\<open>float(re.sub(r'[^\d.]', '', token.replace(',', '.')))\<close>\<close>

definition parse_amount :: "unicode_db \<Rightarrow> pystr \<Rightarrow> py_error + rat" where
  "parse_amount U token =
     py_float U (re_sub U (NoneOf [Digit, Ch 46]) [] (str_replace 44 46 token))"

text \<open>\<open>except ValueError: pass\<close>: the variables keep what was assigned before the raise.\<close>

definition except_ValueError_pass :: "py_error \<Rightarrow> 'a \<Rightarrow> py_error + 'a" where
  "except_ValueError_pass e vars = (if e = ValueError then Inr vars else Inl e)"

text \<open>
  The two branches on \<open>len(amounts)\<close>, as the pair \<open>(min_salary, max_salary)\<close> at their end.
\<close>

fun salary_bounds :: "unicode_db \<Rightarrow> pystr list \<Rightarrow> py_error + (rat option \<times> rat option)" where
  "salary_bounds U (a0 # a1 # rest) =
     (case parse_amount U a0 of
        Inl e \<Rightarrow> except_ValueError_pass e (None, None)
      | Inr lo \<Rightarrow>
          (case parse_amount U a1 of
             Inl e \<Rightarrow> except_ValueError_pass e (Some lo, None)
           | Inr hi \<Rightarrow> Inr (Some lo, Some hi)))"
| "salary_bounds U [a0] =
     (case parse_amount U a0 of
        Inl e \<Rightarrow> except_ValueError_pass e (None, None)
      | Inr lo \<Rightarrow> Inr (Some lo, None))"
| "salary_bounds U [] = Inr (None, None)"

definition salary_periodicity :: "pystr \<Rightarrow> pystr" where
  "salary_periodicity low =
     (if str_in (str ''annuel'') low \<or> str_in (str ''par an'') low then str ''yearly''
      else if str_in (str ''mensuel'') low \<or> str_in (str ''par mois'') low then str ''monthly''
      else if str_in (str ''horaire'') low \<or> str_in (str ''de l'' @ [39] @ str ''heure'') low
        then str ''hourly''
      else str ''monthly'')"

definition salary_currency :: "pystr \<Rightarrow> pystr" where
  "salary_currency s =
     (if str_in [163] s then str ''GBP'' else if str_in [36] s then str ''USD'' else str ''EUR'')"

type_synonym salary_info = "rat option \<times> rat option \<times> pystr option \<times> pystr"

definition extract_salary_info :: "unicode_db \<Rightarrow> pyval \<Rightarrow> py_error + salary_info" where
  "extract_salary_info U salary_text =
     (if \<not> is_str salary_text \<or> \<not> truthy salary_text then Inr (None, None, None, str ''EUR'')
      else (case as_str AttributeError salary_text of
              Inl e \<Rightarrow> Inl e
            | Inr s \<Rightarrow>
                (let amounts = re_findall U amount_group amount_tail (u_lower U s);
                     periodicity = salary_periodicity (u_lower U s);
                     currency = salary_currency s
                 in case salary_bounds U amounts of
                      Inl e \<Rightarrow> Inl e
                    | Inr (min_salary, max_salary) \<Rightarrow>
                        Inr (min_salary, max_salary, Some periodicity, currency))))"

subsection \<open>categorize_contract_type\<close>

definition categorize_contract_type :: "unicode_db \<Rightarrow> pyval \<Rightarrow> py_error + pystr" where
  "categorize_contract_type U contract_text =
     (if \<not> is_str contract_text then Inr (str ''UNKNOWN'')
      else (case as_str AttributeError contract_text of
              Inl e \<Rightarrow> Inl e
            | Inr s \<Rightarrow>
                (let t = u_lower U s
                 in if str_in (str ''cdi'') t then Inr (str ''CDI'')
                    else if str_in (str ''cdd'') t then Inr (str ''CDD'')
                    else if str_in (str ''int'' @ [233] @ str ''rim'') t \<or> str_in (str ''interim'') t
                      then Inr (str ''INTERIM'')
                    else if str_in (str ''apprentissage'') t then Inr (str ''APPRENTICESHIP'')
                    else if str_in (str ''stage'') t then Inr (str ''INTERNSHIP'')
                    else if str_in (str ''freelance'') t
                            \<or> str_in (str ''ind'' @ [233] @ str ''pendant'') t
                      then Inr (str ''FREELANCE'')
                    else if str_in (str ''temps partiel'') t then Inr (str ''PART_TIME'')
                    else if str_in (str ''temps plein'') t then Inr (str ''FULL_TIME'')
                    else Inr (str ''OTHER''))))"

text \<open>
  The specification's \<open>classify_contract_type\<close>, from its words: a fixed ordered list of
  markers, matched as substrings of the text without regard to case (the markers are in
  lower case and are looked for in the lowered text); the first entry with a marker in the
  text gives the type; \<open>OTHER\<close> when there is none, \<open>UNKNOWN\<close> for a value that is no string.
\<close>

definition contract_markers :: "(pystr list \<times> pystr) list" where
  "contract_markers =
     [([str ''cdi''], str ''CDI''),
      ([str ''cdd''], str ''CDD''),
      ([str ''int'' @ [233] @ str ''rim'', str ''interim''], str ''INTERIM''),
      ([str ''apprentissage''], str ''APPRENTICESHIP''),
      ([str ''stage''], str ''INTERNSHIP''),
      ([str ''freelance'', str ''ind'' @ [233] @ str ''pendant''], str ''FREELANCE''),
      ([str ''temps partiel''], str ''PART_TIME''),
      ([str ''temps plein''], str ''FULL_TIME'')]"

fun first_marker :: "(pystr list \<times> pystr) list \<Rightarrow> pystr \<Rightarrow> pystr option" where
  "first_marker [] text = None"
| "first_marker ((markers, std) # rest) text =
     (if list_ex (\<lambda>m. str_in m text) markers then Some std else first_marker rest text)"

definition classify_contract_type :: "unicode_db \<Rightarrow> pyval \<Rightarrow> pystr" where
  "classify_contract_type U raw_text =
     (case raw_text of
        PStr s \<Rightarrow> (case first_marker contract_markers (u_lower U s) of
                     Some std \<Rightarrow> std
                   | None \<Rightarrow> str ''OTHER'')
      | _ \<Rightarrow> str ''UNKNOWN'')"

subsection \<open>extract_experience_level\<close>

text \<open>\<open>any(term in description for term in terms)\<close>\<close>

definition any_term_in :: "pystr list \<Rightarrow> pystr \<Rightarrow> bool" where
  "any_term_in terms description = list_ex (\<lambda>term. str_in term description) terms"

definition extract_experience_level :: "unicode_db \<Rightarrow> pyval \<Rightarrow> py_error + pystr" where
  "extract_experience_level U description =
     (if \<not> is_str description then Inr (str ''NOT_SPECIFIED'')
      else (case as_str AttributeError description of
              Inl e \<Rightarrow> Inl e
            | Inr s \<Rightarrow>
                (let d = u_lower U s
                 in if any_term_in [str ''d'' @ [233] @ str ''butant'', str ''junior'',
                                    str ''0-2 ans'', str ''0 '' @ [224] @ str '' 2 ans''] d
                      then Inr (str ''ENTRY'')
                    else if any_term_in [str ''confirm'' @ [233], str ''2-5 ans'',
                                         str ''2 '' @ [224] @ str '' 5 ans'', str ''3 ans''] d
                      then Inr (str ''MID'')
                    else if any_term_in [str ''senior'', str ''5-10 ans'',
                                         str ''5 '' @ [224] @ str '' 10 ans'',
                                         str ''exp'' @ [233] @ str ''riment'' @ [233]] d
                      then Inr (str ''SENIOR'')
                    else if any_term_in [str ''expert'', str ''+ de 10 ans'',
                                         str ''plus de 10 ans''] d
                      then Inr (str ''EXPERT'')
                    else Inr (str ''NOT_SPECIFIED''))))"

subsection \<open>extract_keywords\<close>

text \<open>
  The default vocabulary, as the source writes it: \<open>c\+\+\<close> carries its two backslashes
  (code point 92). The optional argument \<open>keyword_list\<close> is left at its default \<open>None\<close>, as
  the one caller of the function does.
\<close>

definition default_keywords :: "pystr list" where
  "default_keywords =
     [str ''python'', str ''java'', str ''javascript'', str ''c'' @ [92] @ str ''+'' @ [92] @ str ''+'',
      str ''c#'', str ''php'', str ''ruby'', str ''swift'',
      str ''django'', str ''flask'', str ''spring'', str ''react'', str ''angular'', str ''vue'',
      str ''laravel'',
      str ''sql'', str ''postgresql'', str ''mysql'', str ''mongodb'', str ''oracle'', str ''sqlite'',
      str ''aws'', str ''azure'', str ''gcp'', str ''cloud'',
      str ''data science'', str ''machine learning'', str ''deep learning'', str ''ai'',
      str ''big data'',
      str ''devops'', str ''docker'', str ''kubernetes'', str ''jenkins'', str ''git'', str ''ci/cd'']"

text \<open>
  The pattern \<open>r'\b' + keyword + r'\b'\<close>. A keyword of the vocabulary is pattern source
  made of ordinary characters and of characters escaped by a backslash, which both stand
  for themselves.
\<close>

fun unescape :: "pystr \<Rightarrow> pystr" where
  "unescape [] = []"
| "unescape [c] = [c]"
| "unescape (c # d # cs) = (if c = 92 then d # unescape cs else c # unescape (d # cs))"

definition keyword_pattern :: "pystr \<Rightarrow> regex" where
  "keyword_pattern keyword = Seq Bnd (Seq (lit (unescape keyword)) Bnd)"

definition extract_keywords :: "unicode_db \<Rightarrow> pyval \<Rightarrow> py_error + pystr list" where
  "extract_keywords U description =
     (if \<not> is_str description \<or> \<not> truthy description then Inr []
      else (case as_str AttributeError description of
              Inl e \<Rightarrow> Inl e
            | Inr s \<Rightarrow>
                (let description_lower = u_lower U s
                 in Inr (filter (\<lambda>keyword. re_search U (keyword_pattern keyword) description_lower)
                                default_keywords))))"

section \<open>DataFrames\<close>

text \<open>
  A \<open>pandas.DataFrame\<close> as the pipeline uses it: \<open>len(df)\<close>, and the columns in their
  order, each with one cell per row. Column labels are strings and no label occurs twice,
  which holds for every frame made by \<open>pd.DataFrame\<close> from a list of dictionaries and by
  column assignment.
\<close>

record dataframe =
  nrows :: nat
  cols :: "(pystr \<times> pyval list) list"

text \<open>\<open>df.columns\<close>, \<open>df[c]\<close> (\<open>None\<close> where pandas raises \<open>KeyError\<close>) and \<open>df[c] = values\<close>.\<close>

definition df_columns :: "dataframe \<Rightarrow> pystr list" where
  "df_columns df = map fst (cols df)"

definition df_get :: "dataframe \<Rightarrow> pystr \<Rightarrow> pyval list option" where
  "df_get df c = map_of (cols df) c"

fun assign :: "pystr \<Rightarrow> pyval list \<Rightarrow> (pystr \<times> pyval list) list \<Rightarrow> (pystr \<times> pyval list) list" where
  "assign c vs [] = [(c, vs)]"
| "assign c vs ((k, old) # rest) = (if k = c then (c, vs) # rest else (k, old) # assign c vs rest)"

definition df_set :: "dataframe \<Rightarrow> pystr \<Rightarrow> pyval list \<Rightarrow> dataframe" where
  "df_set df c vs = df\<lparr>cols := assign c vs (cols df)\<rparr>"

text \<open>\<open>Series.apply(f)\<close>: \<open>f\<close> on every cell in turn; the first raise ends it.\<close>

fun series_apply :: "('a \<Rightarrow> py_error + 'b) \<Rightarrow> 'a list \<Rightarrow> py_error + 'b list" where
  "series_apply f [] = Inr []"
| "series_apply f (x # xs) =
     (case f x of
        Inl e \<Rightarrow> Inl e
      | Inr y \<Rightarrow> (case series_apply f xs of Inl e \<Rightarrow> Inl e | Inr ys \<Rightarrow> Inr (y # ys)))"

subsection \<open>apply_keyword_analysis\<close>

definition main_techs :: "pystr list" where
  "main_techs = [str ''python'', str ''java'', str ''javascript'', str ''sql'', str ''aws'',
                 str ''machine learning'']"

text \<open>\<open>f'has_{tech.replace(" ", "_")}'\<close>\<close>

definition has_column :: "pystr \<Rightarrow> pystr" where
  "has_column tech = str ''has_'' @ str_replace 32 95 tech"

text \<open>
  The cells of \<open>extracted_keywords\<close> are lists of strings; \<open>tech in x\<close> and \<open>len(x)\<close> read
  such a cell, and raise \<open>TypeError\<close> on a cell that is no container.
\<close>

fun py_in_list :: "pystr \<Rightarrow> pyval \<Rightarrow> py_error + pyval" where
  "py_in_list tech (PList xs) = Inr (PInt (if list_ex (\<lambda>x. x = PStr tech) xs then 1 else 0))"
| "py_in_list tech (PStr s) = Inr (PInt (if str_in tech s then 1 else 0))"
| "py_in_list tech (PDict kvs) = Inr (PInt (if list_ex (\<lambda>kv. fst kv = tech) kvs then 1 else 0))"
| "py_in_list tech _ = Inl TypeError"

fun py_len :: "pyval \<Rightarrow> py_error + pyval" where
  "py_len (PList xs) = Inr (PInt (int (length xs)))"
| "py_len (PStr s) = Inr (PInt (int (length s)))"
| "py_len (PDict kvs) = Inr (PInt (int (length kvs)))"
| "py_len _ = Inl TypeError"

text \<open>
  The loop over \<open>main_techs\<close>; it reads \<open>df['extracted_keywords']\<close> at every turn. The source
  assigns the columns on the frame it was given and returns that frame; the model returns
  the frame after the assignments.
\<close>

fun add_tech_flags :: "pystr list \<Rightarrow> dataframe \<Rightarrow> py_error + dataframe" where
  "add_tech_flags [] df = Inr df"
| "add_tech_flags (tech # techs) df =
     (case df_get df (str ''extracted_keywords'') of
        None \<Rightarrow> Inl KeyError
      | Some kws \<Rightarrow>
          (case series_apply (py_in_list tech) kws of
             Inl e \<Rightarrow> Inl e
           | Inr flags \<Rightarrow> add_tech_flags techs (df_set df (has_column tech) flags)))"

definition apply_keyword_analysis :: "unicode_db \<Rightarrow> dataframe option \<Rightarrow> py_error + dataframe option" where
  "apply_keyword_analysis U df =
     (case df of
        None \<Rightarrow> Inr None
      | Some d \<Rightarrow>
          (case df_get d (str ''description_clean'') of
             None \<Rightarrow> Inr (Some d)
           | Some descriptions \<Rightarrow>
               (case series_apply (extract_keywords U) descriptions of
                  Inl e \<Rightarrow> Inl e
                | Inr kws \<Rightarrow>
                    (case add_tech_flags main_techs
                            (df_set d (str ''extracted_keywords'')
                               (map (\<lambda>ks. PList (map PStr ks)) kws)) of
                       Inl e \<Rightarrow> Inl e
                     | Inr d1 \<Rightarrow>
                         (case df_get d1 (str ''extracted_keywords'') of
                            None \<Rightarrow> Inl KeyError
                          | Some cells \<Rightarrow>
                              (case series_apply py_len cells of
                                 Inl e \<Rightarrow> Inl e
                               | Inr counts \<Rightarrow>
                                   Inr (Some (df_set d1 (str ''keyword_count'') counts))))))))"

text \<open>
  For the proofs: the columns that the pass writes, and the frame it returns for a frame
  whose \<open>description_clean\<close> column holds \<open>descriptions\<close>, in closed form.
\<close>

definition keyword_frame :: "unicode_db \<Rightarrow> pyval list \<Rightarrow> dataframe \<Rightarrow> dataframe" where
  "keyword_frame U descriptions df =
     (let cells = map (\<lambda>x. PList (map PStr (projr (extract_keywords U x)))) descriptions;
          d0 = df_set df (str ''extracted_keywords'') cells;
          d1 = foldl (\<lambda>d tech. df_set d (has_column tech) (map (\<lambda>c. projr (py_in_list tech c)) cells))
                     d0 main_techs
      in df_set d1 (str ''keyword_count'') (map (\<lambda>c. projr (py_len c)) cells))"

definition derived_columns :: "pystr list" where
  "derived_columns = str ''extracted_keywords'' # map has_column main_techs @ [str ''keyword_count'']"

section \<open>loading.py\<close>

subsection \<open>prepare_job_data_for_loading\<close>

definition column_mapping :: "(pystr \<times> pystr) list" where
  "column_mapping =
     [(str ''id'', str ''id''),
      (str ''intitule'', str ''intitule''),
      (str ''description_clean'', str ''description_clean''),
      (str ''entreprise_clean'', str ''entreprise_clean''),
      (str ''lieuTravail'', str ''lieu_travail''),
      (str ''typeContrat'', str ''type_contrat''),
      (str ''contract_type_std'', str ''contract_type_std''),
      (str ''experience_level'', str ''experience_level''),
      (str ''min_salary'', str ''min_salary''),
      (str ''max_salary'', str ''max_salary''),
      (str ''salary_periodicity'', str ''salary_periodicity''),
      (str ''currency'', str ''currency''),
      (str ''dateCreation_iso'', str ''date_creation''),
      (str ''dateActualisation_iso'', str ''date_actualisation''),
      (str ''keyword_count'', str ''keyword_count''),
      (str ''has_python'', str ''has_python''),
      (str ''has_java'', str ''has_java''),
      (str ''has_javascript'', str ''has_javascript''),
      (str ''has_sql'', str ''has_sql''),
      (str ''has_aws'', str ''has_aws''),
      (str ''has_machine_learning'', str ''has_machine_learning''),
      (str ''etl_timestamp'', str ''etl_timestamp'')]"

definition date_columns :: "pystr list" where
  "date_columns = [str ''date_creation'', str ''date_actualisation'', str ''etl_timestamp'']"

text \<open>
  \<open>pd.to_datetime(column, errors='coerce')\<close>: a null cell becomes \<open>NaT\<close>; what another cell
  becomes (a \<open>Timestamp\<close>, or \<open>NaT\<close> when it cannot be parsed) is decided by pandas, from the
  column and the position, and is the parameter \<open>conv\<close>.
\<close>

fun is_null :: "pyval \<Rightarrow> bool" where
  "is_null PNone = True"
| "is_null PNaN = True"
| "is_null PNaT = True"
| "is_null _ = False"

definition to_datetime :: "(pyval list \<Rightarrow> nat \<Rightarrow> pyval) \<Rightarrow> pyval list \<Rightarrow> pyval list" where
  "to_datetime conv column =
     map (\<lambda>i. if is_null (column ! i) then PNaT else conv column i) [0..<length column]"

text \<open>\<open>df[columns_to_keep]\<close> with the labels replaced by \<open>column_mapping[col]\<close>.\<close>

fun select_renamed :: "dataframe \<Rightarrow> pystr list \<Rightarrow> py_error + (pystr \<times> pyval list) list" where
  "select_renamed df [] = Inr []"
| "select_renamed df (col # rest) =
     (case df_get df col of
        None \<Rightarrow> Inl KeyError
      | Some cells \<Rightarrow>
          (case map_of column_mapping col of
             None \<Rightarrow> Inl KeyError
           | Some target \<Rightarrow>
               (case select_renamed df rest of
                  Inl e \<Rightarrow> Inl e
                | Inr selected \<Rightarrow> Inr ((target, cells) # selected))))"

text \<open>The loop that adds the missing target columns, and the loop over the date columns.\<close>

fun add_missing :: "pystr list \<Rightarrow> dataframe \<Rightarrow> dataframe" where
  "add_missing [] df = df"
| "add_missing (target_col # rest) df =
     add_missing rest
       (if target_col \<in> set (df_columns df) then df
        else df_set df target_col (replicate (nrows df) PNone))"

fun convert_dates :: "(pyval list \<Rightarrow> nat \<Rightarrow> pyval) \<Rightarrow> pystr list \<Rightarrow> dataframe \<Rightarrow> dataframe" where
  "convert_dates conv [] df = df"
| "convert_dates conv (col # rest) df =
     convert_dates conv rest
       (case df_get df col of
          Some cells \<Rightarrow> df_set df col (to_datetime conv cells)
        | None \<Rightarrow> df)"

definition prepare_job_data_for_loading ::
  "(pyval list \<Rightarrow> nat \<Rightarrow> pyval) \<Rightarrow> dataframe option \<Rightarrow> py_error + dataframe option" where
  "prepare_job_data_for_loading conv df =
     (case df of
        None \<Rightarrow> Inr None
      | Some d \<Rightarrow>
          if nrows d = 0 then Inr None
          else
            let columns_to_keep =
                  filter (\<lambda>col. col \<in> set (df_columns d)) (map fst column_mapping)
            in if length columns_to_keep = 0 then Inr None
               else
                 (case select_renamed d columns_to_keep of
                    Inl e \<Rightarrow> Inl e
                  | Inr selected \<Rightarrow>
                      let result_df = \<lparr>nrows = nrows d, cols = selected\<rparr>;
                          result_df = add_missing (map snd column_mapping) result_df;
                          result_df = df_set result_df (str ''source'')
                                        (replicate (nrows result_df) (PStr (str ''FRANCE_TRAVAIL'')));
                          result_df = convert_dates conv date_columns result_df
                      in Inr (Some result_df)))"

subsection \<open>execute_etl_pipeline\<close>

text \<open>
  The orchestrator calls seven functions in a fixed order and looks only at what they
  return. They are its parameters here, so that each of its exits can be reached;
  \<open>today\<close> is \<open>datetime.now().strftime("%Y%m%d")\<close>. Beside the value returned, the model
  gives the list of the calls made, in order. An exception of a callee is not caught.
\<close>

datatype engine = Engine pystr

datatype stage =
  Extraction | Transformation | KeywordAnalysis | Preparation | Connection | TableCreation | Loading

definition all_stages :: "stage list" where
  "all_stages =
     [Extraction, Transformation, KeywordAnalysis, Preparation, Connection, TableCreation, Loading]"

record callees =
  call_extract_by_date_range :: "pystr \<Rightarrow> pystr option \<Rightarrow> py_error + dataframe option"
  call_transform_job_dataframe :: "dataframe option \<Rightarrow> py_error + dataframe option"
  call_apply_keyword_analysis :: "dataframe option \<Rightarrow> py_error + dataframe option"
  call_prepare_job_data_for_loading :: "dataframe option \<Rightarrow> py_error + dataframe option"
  call_get_db_connection :: "py_error + engine option"
  call_create_jobs_table :: "engine option \<Rightarrow> py_error + bool"
  call_load_jobs_to_database :: "dataframe option \<Rightarrow> engine option \<Rightarrow> py_error + int"

text \<open>\<open>if not start_date: start_date = datetime.now().strftime("%Y%m%d")\<close>\<close>

definition default_start_date :: "pystr \<Rightarrow> pystr option \<Rightarrow> pystr" where
  "default_start_date today start_date =
     (case start_date of None \<Rightarrow> today | Some d \<Rightarrow> if d = [] then today else d)"

definition execute_etl_pipeline ::
  "callees \<Rightarrow> pystr \<Rightarrow> pystr option \<Rightarrow> pystr option \<Rightarrow> stage list \<times> (py_error + int)" where
  "execute_etl_pipeline C today start_date end_date =
     (let start_date = default_start_date today start_date
      in case call_extract_by_date_range C start_date end_date of
           Inl e \<Rightarrow> ([Extraction], Inl e)
         | Inr None \<Rightarrow> ([Extraction], Inr 0)
         | Inr (Some raw_df) \<Rightarrow>
        (case call_transform_job_dataframe C (Some raw_df) of
           Inl e \<Rightarrow> ([Extraction, Transformation], Inl e)
         | Inr None \<Rightarrow> ([Extraction, Transformation], Inr 0)
         | Inr (Some transformed) \<Rightarrow>
        (case call_apply_keyword_analysis C (Some transformed) of
           Inl e \<Rightarrow> ([Extraction, Transformation, KeywordAnalysis], Inl e)
         | Inr None \<Rightarrow> ([Extraction, Transformation, KeywordAnalysis], Inr 0)
         | Inr (Some transformed_df) \<Rightarrow>
        (case call_prepare_job_data_for_loading C (Some transformed_df) of
           Inl e \<Rightarrow> ([Extraction, Transformation, KeywordAnalysis, Preparation], Inl e)
         | Inr None \<Rightarrow> ([Extraction, Transformation, KeywordAnalysis, Preparation], Inr 0)
         | Inr (Some load_ready_df) \<Rightarrow>
        (case call_get_db_connection C of
           Inl e \<Rightarrow> ([Extraction, Transformation, KeywordAnalysis, Preparation, Connection], Inl e)
         | Inr None \<Rightarrow>
             ([Extraction, Transformation, KeywordAnalysis, Preparation, Connection], Inr 0)
         | Inr (Some engine) \<Rightarrow>
        (case call_create_jobs_table C (Some engine) of
           Inl e \<Rightarrow>
             ([Extraction, Transformation, KeywordAnalysis, Preparation, Connection,
               TableCreation], Inl e)
         | Inr table_exists \<Rightarrow>
             if \<not> table_exists
             then ([Extraction, Transformation, KeywordAnalysis, Preparation, Connection,
                    TableCreation], Inr 0)
             else ([Extraction, Transformation, KeywordAnalysis, Preparation, Connection,
                    TableCreation, Loading],
                   call_load_jobs_to_database C (Some load_ready_df) (Some engine))))))))"

section \<open>extraction.py\<close>

text \<open>
  Membership in a \<open>set\<close>: the value must be hashable (a list or a dictionary raises
  \<open>TypeError\<close>), and it is found when an element is the same object or is equal to it
  (\<open>x is y or x == y\<close>): \<open>py_eq\<close> is that test on the values of a parsed document.
  Booleans, integers and floats are compared by their number (\<open>True == 1 == 1.0\<close>), an
  integer and a float exactly. \<open>nan == nan\<close> is false, but \<open>json.load\<close> gives the one object
  \<open>json.decoder.NaN\<close> for every \<open>NaN\<close> it reads, in every file, so the set finds a \<open>nan\<close>
  that it already holds.
\<close>

fun hashable :: "pyval \<Rightarrow> bool" where
  "hashable (PList xs) = False"
| "hashable (PDict kvs) = False"
| "hashable _ = True"

fun number :: "pyval \<Rightarrow> rat option" where
  "number (PBool b) = Some (if b then 1 else 0)"
| "number (PInt i) = Some (of_int i)"
| "number (PFloat q) = Some q"
| "number _ = None"

definition py_eq :: "pyval \<Rightarrow> pyval \<Rightarrow> bool" where
  "py_eq a b =
     (case (number a, number b) of
        (Some x, Some y) \<Rightarrow> x = y
      | (None, None) \<Rightarrow> a = b
      | _ \<Rightarrow> False)"

definition in_set :: "pyval \<Rightarrow> pyval list \<Rightarrow> bool" where
  "in_set x elements = list_ex (py_eq x) elements"

text \<open>
  \<open>read_json_file\<close> is the parameter \<open>fs\<close>: the parsed document of the file at a path, and
  \<open>None\<close> for a file that cannot be opened or parsed (the exception is caught there).
  \<open>dict.get(key, default)\<close>:
\<close>

definition dict_get :: "(pystr \<times> pyval) list \<Rightarrow> pystr \<Rightarrow> pyval \<Rightarrow> pyval" where
  "dict_get kvs key fallback = (case map_of kvs key of Some v \<Rightarrow> v | None \<Rightarrow> fallback)"

text \<open>
  \<open>extract_job_offers\<close>: \<open>data.get\<close> exists on a dictionary only, and \<open>len(offers)\<close> in the log
  line needs a sized value.
\<close>

definition extract_job_offers :: "(pystr \<Rightarrow> pyval) \<Rightarrow> pystr \<Rightarrow> py_error + pyval" where
  "extract_job_offers fs file_path =
     (let data = fs file_path
      in if \<not> truthy data then Inr (PList [])
         else (case data of
                 PDict kvs \<Rightarrow>
                   (let offers = dict_get kvs (str ''resultats'') (PList [])
                    in case py_len offers of Inl e \<Rightarrow> Inl e | Inr n \<Rightarrow> Inr offers)
               | _ \<Rightarrow> Inl AttributeError))"

text \<open>\<open>for offer in offers\<close>: the elements of a list, the characters of a string, the keys of
  a dictionary.\<close>

fun py_iter :: "pyval \<Rightarrow> py_error + pyval list" where
  "py_iter (PList xs) = Inr xs"
| "py_iter (PStr s) = Inr (map (\<lambda>c. PStr [c]) s)"
| "py_iter (PDict kvs) = Inr (map (\<lambda>kv. PStr (fst kv)) kvs)"
| "py_iter _ = Inl TypeError"

text \<open>
  The inner loop, on the state \<open>(all_offers, job_ids)\<close>. \<open>offer.get\<close> exists on a dictionary
  only; \<open>and\<close> tests the truth value of the identifier before the set is asked.
\<close>

fun collect_offers ::
  "pyval list \<Rightarrow> pyval list \<times> pyval list \<Rightarrow> py_error + (pyval list \<times> pyval list)" where
  "collect_offers [] state = Inr state"
| "collect_offers (offer # rest) (all_offers, job_ids) =
     (case offer of
        PDict kvs \<Rightarrow>
          (let offer_id = dict_get kvs (str ''id'') PNone
           in if truthy offer_id then
                if \<not> hashable offer_id then Inl TypeError
                else if \<not> in_set offer_id job_ids
                  then collect_offers rest (all_offers @ [offer], offer_id # job_ids)
                  else collect_offers rest (all_offers, job_ids)
              else collect_offers rest (all_offers, job_ids))
      | _ \<Rightarrow> Inl AttributeError)"

text \<open>The outer loop over the files.\<close>

fun collect_files ::
  "(pystr \<Rightarrow> pyval) \<Rightarrow> pystr list \<Rightarrow> pyval list \<times> pyval list \<Rightarrow>
   py_error + (pyval list \<times> pyval list)" where
  "collect_files fs [] state = Inr state"
| "collect_files fs (file_path # rest) state =
     (case extract_job_offers fs file_path of
        Inl e \<Rightarrow> Inl e
      | Inr offers \<Rightarrow>
          (case py_iter offers of
             Inl e \<Rightarrow> Inl e
           | Inr items \<Rightarrow>
               (case collect_offers items state of
                  Inl e \<Rightarrow> Inl e
                | Inr state' \<Rightarrow> collect_files fs rest state')))"

text \<open>
  \<open>pd.DataFrame(all_offers)\<close> for a list of dictionaries: one row for each, the columns are
  the keys in the order of their first appearance, and a key that a dictionary lacks gives
  \<open>nan\<close>. pandas then infers a type for each column. For the values of a parsed document
  the inference changes the cells of a column in one case: a column that pandas makes
  \<open>float64\<close> (integers beside floats, \<open>None\<close> or missing cells). There an integer becomes
  the float nearest to it, ties going to the even significand (so \<open>9007199254740993\<close>
  becomes \<open>9007199254740992.0\<close>), and \<open>None\<close> becomes \<open>nan\<close>. In every other column
  (strings, booleans, integers alone, mixed objects) each cell keeps its value. Which
  columns are made \<open>float64\<close> is decided by pandas: it is the parameter \<open>float_column\<close>, a
  test on the cells of the column, and every theorem holds whatever that test is.
\<close>

fun dict_items :: "pyval \<Rightarrow> (pystr \<times> pyval) list" where
  "dict_items (PDict kvs) = kvs"
| "dict_items _ = []"

text \<open>
  \<open>float(n)\<close> for a natural number: below \<open>2 ^ 53\<close> it is exact; otherwise the
  \<open>excess_bits n\<close> low bits are rounded away, to the nearest multiple and to the even one on
  a tie. Infinities are not represented, so nothing is said of an integer beyond the range
  of the floats (\<open>2 ^ 1024\<close> and above).
\<close>

fun excess_bits :: "nat \<Rightarrow> nat" where
  "excess_bits n = (if n < 2 ^ 53 then 0 else Suc (excess_bits (n div 2)))"

declare excess_bits.simps [simp del]

definition nearest_double :: "nat \<Rightarrow> nat" where
  "nearest_double n =
     (let e = excess_bits n; q = n div 2 ^ e; r = n mod 2 ^ e
      in if 2 ^ e < 2 * r \<or> (2 * r = 2 ^ e \<and> odd q) then (q + 1) * 2 ^ e else q * 2 ^ e)"

definition double_of_int :: "int \<Rightarrow> rat" where
  "double_of_int i =
     (if i < 0 then - of_nat (nearest_double (nat (- i))) else of_nat (nearest_double (nat i)))"

fun to_float64 :: "pyval \<Rightarrow> pyval" where
  "to_float64 (PInt i) = PFloat (double_of_int i)"
| "to_float64 PNone = PNaN"
| "to_float64 cell = cell"

definition column_cells :: "(pyval list \<Rightarrow> bool) \<Rightarrow> pyval list \<Rightarrow> pyval list" where
  "column_cells float_column cells = (if float_column cells then map to_float64 cells else cells)"

definition DataFrame :: "(pyval list \<Rightarrow> bool) \<Rightarrow> pyval list \<Rightarrow> dataframe" where
  "DataFrame float_column records =
     \<lparr>nrows = length records,
      cols = map (\<lambda>key. (key, column_cells float_column
                                  (map (\<lambda>r. dict_get (dict_items r) key PNaN) records)))
                 (rev (remdups (rev (concat (map (\<lambda>r. map fst (dict_items r)) records)))))\<rparr>"

text \<open>
  \<open>extract_jobs_to_dataframe(file_list)\<close>; \<open>local_files\<close> is what \<open>list_raw_data_files()\<close>
  returns, the listing of the local directory, and \<open>float_column\<close> is the type inference of
  \<open>pd.DataFrame\<close>.
\<close>

definition files_to_process :: "pystr list \<Rightarrow> pystr list option \<Rightarrow> pystr list" where
  "files_to_process local_files file_list =
     (case file_list of None \<Rightarrow> local_files | Some fl \<Rightarrow> if fl = [] then local_files else fl)"

definition extract_jobs_to_dataframe ::
  "(pyval list \<Rightarrow> bool) \<Rightarrow> (pystr \<Rightarrow> pyval) \<Rightarrow> pystr list \<Rightarrow> pystr list option \<Rightarrow>
   py_error + dataframe option" where
  "extract_jobs_to_dataframe float_column fs local_files file_list =
     (let file_list = files_to_process local_files file_list
      in if file_list = [] then Inr None
         else (case collect_files fs file_list ([], []) of
                 Inl e \<Rightarrow> Inl e
               | Inr (all_offers, job_ids) \<Rightarrow>
                   if all_offers \<noteq> []
                   then Inr (Some (DataFrame float_column all_offers)) else Inr None))"

subsection \<open>Batches and their postings\<close>

text \<open>
  The interface of the extractor asks that a batch file expose an array of postings under
  \<open>resultats\<close>. A document is well formed when it is empty or missing (\<open>read_json_file\<close> gave
  a false value), or a dictionary whose \<open>resultats\<close>, if there, is a list of dictionaries;
  the identifier of a posting, if there, is then \<open>null\<close>, a boolean, a number (\<open>NaN\<close> is
  one for \<open>json.load\<close>) or a string.
  \<open>postings_of\<close> is the array of a well-formed document, \<open>id_of\<close> the natural identifier of a
  posting (\<open>None\<close> when it has none).
\<close>

definition id_of :: "pyval \<Rightarrow> pyval" where
  "id_of offer = dict_get (dict_items offer) (str ''id'') PNone"

fun wf_id :: "pyval \<Rightarrow> bool" where
  "wf_id PNone = True"
| "wf_id (PBool b) = True"
| "wf_id (PInt i) = True"
| "wf_id (PFloat q) = True"
| "wf_id PNaN = True"
| "wf_id (PStr s) = True"
| "wf_id _ = False"

fun wf_offer :: "pyval \<Rightarrow> bool" where
  "wf_offer (PDict kvs) = wf_id (dict_get kvs (str ''id'') PNone)"
| "wf_offer _ = False"

fun postings_of :: "pyval \<Rightarrow> pyval list" where
  "postings_of (PDict kvs) =
     (case dict_get kvs (str ''resultats'') (PList []) of PList offers \<Rightarrow> offers | _ \<Rightarrow> [])"
| "postings_of _ = []"

definition wf_document :: "pyval \<Rightarrow> bool" where
  "wf_document data =
     (if truthy data
      then (case data of
              PDict kvs \<Rightarrow>
                (case dict_get kvs (str ''resultats'') (PList []) of
                   PList offers \<Rightarrow> list_all wf_offer offers
                 | _ \<Rightarrow> False)
            | _ \<Rightarrow> False)
      else True)"

definition all_postings :: "(pystr \<Rightarrow> pyval) \<Rightarrow> pystr list \<Rightarrow> pyval list" where
  "all_postings fs files = concat (map (\<lambda>file_path. postings_of (fs file_path)) files)"

text \<open>
  For the proofs: the postings that the loop appends when it runs over \<open>offers\<close> with the
  set \<open>job_ids\<close>, in closed form.
\<close>

fun fresh :: "pyval list \<Rightarrow> pyval list \<Rightarrow> pyval list" where
  "fresh job_ids [] = []"
| "fresh job_ids (offer # rest) =
     (if truthy (id_of offer) \<and> \<not> in_set (id_of offer) job_ids
      then offer # fresh (id_of offer # job_ids) rest
      else fresh job_ids rest)"

section \<open>Sample inputs\<close>

text \<open>
  Concrete inputs on which the theorems below are run: two batch files that share the
  identifier \<open>A1\<close> and hold one posting with an empty identifier and one without any, a batch
  file whose postings all lack an identifier, a batch file whose identifiers are numbers
  (an integer above \<open>2 ^ 53\<close>, the float below it, and \<open>NaN\<close> twice), a frame of two
  transformed postings, and callees of the orchestrator that all succeed.
  \<open>sample_float_column\<close> is the type that pandas infers on the columns of these batches:
  \<open>float64\<close> for a column of numbers with a float or a \<open>nan\<close> among them.
\<close>

definition sample_fs :: "pystr \<Rightarrow> pyval" where
  "sample_fs file_path =
     (if file_path = str ''batch_20240105_a.json'' then
        PDict [(str ''resultats'',
                PList [PDict [(str ''id'', PStr (str ''A1'')), (str ''intitule'', PStr (str ''Dev''))],
                       PDict [(str ''id'', PStr (str ''A2''))],
                       PDict [(str ''id'', PStr []), (str ''intitule'', PStr (str ''Sans id''))]])]
      else if file_path = str ''batch_20240106_b.json'' then
        PDict [(str ''resultats'',
                PList [PDict [(str ''id'', PStr (str ''A1'')), (str ''intitule'', PStr (str ''Copie''))],
                       PDict [(str ''intitule'', PStr (str ''Rien''))],
                       PDict [(str ''id'', PStr (str ''B7''))]])]
      else if file_path = str ''batch_20240107_c.json'' then
        PDict [(str ''resultats'',
                PList [PDict [(str ''intitule'', PStr (str ''Rien''))],
                       PDict [(str ''id'', PNone)],
                       PDict [(str ''id'', PStr [])]])]
      else if file_path = str ''batch_20240108_d.json'' then
        PDict [(str ''resultats'',
                PList [PDict [(str ''id'', PInt 9007199254740993),
                              (str ''intitule'', PStr (str ''Grand''))],
                       PDict [(str ''id'', PFloat 9007199254740992)],
                       PDict [(str ''id'', PNaN)],
                       PDict [(str ''id'', PNaN), (str ''intitule'', PStr (str ''Encore''))]])]
      else PNone)"

fun is_number_cell :: "pyval \<Rightarrow> bool" where
  "is_number_cell (PInt i) = True"
| "is_number_cell (PFloat q) = True"
| "is_number_cell PNaN = True"
| "is_number_cell _ = False"

fun is_float_cell :: "pyval \<Rightarrow> bool" where
  "is_float_cell (PFloat q) = True"
| "is_float_cell PNaN = True"
| "is_float_cell _ = False"

definition sample_float_column :: "pyval list \<Rightarrow> bool" where
  "sample_float_column cells = (list_all is_number_cell cells \<and> list_ex is_float_cell cells)"

definition sample_frame :: dataframe where
  "sample_frame =
     \<lparr>nrows = 2,
      cols = [(str ''id'', [PStr (str ''A1''), PStr (str ''B7'')]),
              (str ''description_clean'',
               [PStr (str ''Python, SQL''), PStr (str ''Vente'')]),
              (str ''dateCreation_iso'', [PStr (str ''2024-01-05''), PNone])]\<rparr>"

definition sample_callees :: callees where
  "sample_callees =
     \<lparr>call_extract_by_date_range = (\<lambda>start_date end_date. Inr (Some sample_frame)),
      call_transform_job_dataframe = (\<lambda>df. Inr df),
      call_apply_keyword_analysis = (\<lambda>df. Inr df),
      call_prepare_job_data_for_loading = (\<lambda>df. Inr df),
      call_get_db_connection = Inr (Some (Engine (str ''jobs''))),
      call_create_jobs_table = (\<lambda>engine. Inr True),
      call_load_jobs_to_database = (\<lambda>df engine. Inr 2)\<rparr>"

section \<open>Properties of the field normalisers\<close>

lemmas eval_defs = str_def basic_db_def re_findall_def re_sub_def re_search_def
  amount_group_def amount_tail_def tag_re_def spaces_re_def
  py_float_def parse_amount_def digits_value_def except_ValueError_pass_def
  salary_periodicity_def salary_currency_def str_strip_def str_replace_def

text \<open>\<open>in\<close> on strings is the occurrence as a contiguous sublist.\<close>

lemma startswith_prefix: "startswith s needle \<longleftrightarrow> prefix needle s"
  by (induction s needle rule: startswith.induct) auto

lemma str_in_sublist: "str_in needle s \<longleftrightarrow> sublist needle s"
  by (induction s) (auto simp: startswith_prefix sublist_Cons_right)

text \<open>The normalisers on texts of the specification's examples.\<close>

lemma clean_text_field_example:
  "clean_text_field basic_db (PStr (str ''<b>Hello</b>  world'')) = Inr (str ''Hello world'')"
  by (simp add: clean_text_field_def eval_defs)

lemma extract_keywords_example:
  "extract_keywords basic_db (PStr (str ''SQL'')) = Inr [str ''sql'']"
  by (simp add: extract_keywords_def default_keywords_def keyword_pattern_def eval_defs)

text \<open>
  \<open>re.sub(r'[^\d.]', '', s)\<close> keeps the decimal digits and the full stops, so \<open>float\<close> is
  given nothing else; and the match that \<open>re.findall\<close> takes for \<open>(g)t\<close> is the first match
  of the sequence of \<open>g\<close> and \<open>t\<close>.
\<close>

lemma re_sub_from_NoneOf:
  "re_sub_from U (NoneOf its) [] (p, s) = filter (\<lambda>c. list_ex (in_item U c) its) s"
  by (induction s arbitrary: p) auto

lemma re_sub_NoneOf: "re_sub U (NoneOf its) [] s = filter (\<lambda>c. list_ex (in_item U c) its) s"
  by (simp only: re_sub_def re_sub_from_NoneOf)

lemma parse_amount_digits:
  "list_all (\<lambda>c. u_isdecimal U c \<or> c = 46)
     (re_sub U (NoneOf [Digit, Ch 46]) [] (str_replace 44 46 token))"
  by (simp add: re_sub_NoneOf list_all_iff)

lemma match_group_none:
  "match_group U t gs = None \<longleftrightarrow> concat (map (rmatch U t) gs) = []"
  by (induction gs) (auto split: list.splits)

lemma match_group_first:
  "match_group U t gs = Some (ge, e) \<Longrightarrow>
   \<exists>rest. concat (map (rmatch U t) gs) = e # rest"
  by (induction gs) (auto split: list.splits)

lemma match_group_Seq:
  "match_group U t (rmatch U g cur) = None \<longleftrightarrow> rmatch U (Seq g t) cur = []"
  "match_group U t (rmatch U g cur) = Some (ge, e) \<Longrightarrow> \<exists>rest. rmatch U (Seq g t) cur = e # rest"
  by (simp_all add: match_group_none match_group_first)

lemma is_str_cases: "is_str x \<Longrightarrow> \<exists>s. x = PStr s"
  by (cases x) simp_all

text \<open>The only exception of \<open>float\<close> on a token is \<open>ValueError\<close>, which the function catches.\<close>

lemma parse_amount_raises: "parse_amount U t = Inl e \<Longrightarrow> e = ValueError"
  by (auto simp: parse_amount_def py_float_def Let_def split: if_splits)

lemma salary_bounds_returns: "\<exists>b. salary_bounds U amounts = Inr b"
proof (cases "(U, amounts)" rule: salary_bounds.cases)
  case (1 U' a0 a1 rest)
  then show ?thesis
    by (auto simp: except_ValueError_pass_def split: sum.splits dest: parse_amount_raises)
next
  case (2 U' a0)
  then show ?thesis
    by (auto simp: except_ValueError_pass_def split: sum.splits dest: parse_amount_raises)
next
  case (3 U')
  then show ?thesis by simp
qed

lemma extract_salary_info_str:
  assumes "s \<noteq> []"
    and "salary_bounds U (re_findall U amount_group amount_tail (u_lower U s)) = Inr (lo, hi)"
  shows "extract_salary_info U (PStr s) =
           Inr (lo, hi, Some (salary_periodicity (u_lower U s)), salary_currency s)"
  using assms by (simp add: extract_salary_info_def Let_def)

lemma extract_salary_info_returns: "\<exists>r. extract_salary_info U x = Inr r"
proof (cases "is_str x \<and> truthy x")
  case True
  then obtain s where s: "x = PStr s" "s \<noteq> []"
    by (cases x) auto
  obtain lo hi where
    "salary_bounds U (re_findall U amount_group amount_tail (u_lower U s)) = Inr (lo, hi)"
    using salary_bounds_returns by (metis surj_pair)
  from extract_salary_info_str [OF s(2) this] s(1) show ?thesis
    by blast
next
  case False
  then show ?thesis
    by (auto simp add: extract_salary_info_def)
qed

text \<open>
  C2, as amended. When \<open>re.findall\<close> finds exactly one token in the lowered text and the
  token parses as the number \<open>v\<close>, \<open>extract_salary_info\<close> returns \<open>min_salary = v\<close> and
  \<open>max_salary = None\<close>: the branch for one token assigns \<open>min_salary\<close> only.
\<close>

theorem extract_salary_info_one_token:
  assumes "s \<noteq> []"
    and "re_findall U amount_group amount_tail (u_lower U s) = [token]"
    and "parse_amount U token = Inr v"
  shows "extract_salary_info U (PStr s) =
           Inr (Some v, None, Some (salary_periodicity (u_lower U s)), salary_currency s)"
  using assms by (simp add: extract_salary_info_def Let_def)

theorem extract_salary_info_one_token_witness:
  "str ''2000 euros'' \<noteq> []
   \<and> re_findall basic_db amount_group amount_tail (u_lower basic_db (str ''2000 euros''))
       = [str ''2000 '']
   \<and> parse_amount basic_db (str ''2000 '') = Inr 2000
   \<and> extract_salary_info basic_db (PStr (str ''2000 euros'')) =
       Inr (Some 2000, None, Some (salary_periodicity (u_lower basic_db (str ''2000 euros''))),
            salary_currency (str ''2000 euros''))"
proof -
  have a: "str ''2000 euros'' \<noteq> []"
    by (simp add: str_def)
  have b: "re_findall basic_db amount_group amount_tail (u_lower basic_db (str ''2000 euros''))
             = [str ''2000 '']"
    by (simp add: eval_defs)
  have c: "parse_amount basic_db (str ''2000 '') = Inr 2000"
    by (simp add: eval_defs)
  from extract_salary_info_one_token [OF a b c] a b c show ?thesis
    by blast
qed

text \<open>
  C2 as the specification states it fails on \<open>"2000 euros"\<close>: one token is found, it parses
  as 2000, and the maximum returned is \<open>None\<close>, not 2000.
\<close>

theorem extract_salary_info_one_token_counterexample:
  "re_findall basic_db amount_group amount_tail (u_lower basic_db (str ''2000 euros''))
     = [str ''2000 '']
   \<and> parse_amount basic_db (str ''2000 '') = Inr 2000
   \<and> extract_salary_info basic_db (PStr (str ''2000 euros'')) =
       Inr (Some 2000, None, Some (str ''monthly''), str ''EUR'')"
  by (simp add: extract_salary_info_def eval_defs)

text \<open>
  C4. For every input, \<open>categorize_contract_type\<close> returns what the specification's
  \<open>classify_contract_type\<close> describes: the type of the first entry of the ordered marker
  list that has a marker in the lowered text, \<open>OTHER\<close> when no entry has one, \<open>UNKNOWN\<close> for a
  value that is no string. On \<open>"CDI temps plein"\<close> it returns \<open>"CDI"\<close>.
\<close>

theorem categorize_contract_type_first_marker:
  "categorize_contract_type U x = Inr (classify_contract_type U x)
   \<and> categorize_contract_type basic_db (PStr (str ''CDI temps plein'')) = Inr (str ''CDI'')"
proof
  show "categorize_contract_type U x = Inr (classify_contract_type U x)"
    by (cases x) (simp_all add: categorize_contract_type_def classify_contract_type_def
        contract_markers_def Let_def)
  show "categorize_contract_type basic_db (PStr (str ''CDI temps plein'')) = Inr (str ''CDI'')"
    by (simp add: categorize_contract_type_def str_def basic_db_def)
qed

text \<open>
  C10. On a value that is no string and on the empty string, \<open>extract_salary_info\<close> returns
  \<open>(None, None, None, "EUR")\<close>, with no periodicity. On a string that is not empty the
  periodicity is never \<open>None\<close>: it is the guess made from the lowered text, which is
  \<open>"monthly"\<close> when the text has none of the yearly and hourly markers.
\<close>

theorem extract_salary_info_no_text:
  "(\<not> is_str x \<longrightarrow> extract_salary_info U x = Inr (None, None, None, str ''EUR''))
   \<and> extract_salary_info U (PStr []) = Inr (None, None, None, str ''EUR'')
   \<and> (s \<noteq> [] \<longrightarrow>
        (\<exists>lo hi. extract_salary_info U (PStr s) =
           Inr (lo, hi, Some (salary_periodicity (u_lower U s)), salary_currency s)))
   \<and> (\<not> str_in (str ''annuel'') t \<and> \<not> str_in (str ''par an'') t
        \<and> \<not> str_in (str ''horaire'') t \<and> \<not> str_in (str ''de l'' @ [39] @ str ''heure'') t
      \<longrightarrow> salary_periodicity t = str ''monthly'')"
proof (intro conjI impI)
  assume "s \<noteq> []"
  obtain lo hi where
    "salary_bounds U (re_findall U amount_group amount_tail (u_lower U s)) = Inr (lo, hi)"
    using salary_bounds_returns by (metis surj_pair)
  from extract_salary_info_str [OF \<open>s \<noteq> []\<close> this]
  show "\<exists>lo hi. extract_salary_info U (PStr s) =
           Inr (lo, hi, Some (salary_periodicity (u_lower U s)), salary_currency s)"
    by blast
qed (simp_all add: extract_salary_info_def salary_periodicity_def)

theorem extract_salary_info_no_text_witness:
  "\<not> is_str (PInt 5)
   \<and> extract_salary_info basic_db (PInt 5) = Inr (None, None, None, str ''EUR'')
   \<and> str ''CDI'' \<noteq> []
   \<and> (\<exists>lo hi. extract_salary_info basic_db (PStr (str ''CDI'')) =
           Inr (lo, hi, Some (str ''monthly''), str ''EUR''))
   \<and> salary_periodicity (str ''cdi'') = str ''monthly''"
  using extract_salary_info_no_text [of "PInt 5" basic_db "str ''CDI''" "str ''cdi''"]
  by (simp add: eval_defs)

text \<open>
  C3, as amended. \<open>extract_salary_info\<close> never raises: the \<open>ValueError\<close> of a token that
  is no number is caught. The values assigned before the failing conversion are kept and
  the rest of the \<open>try\<close> block is skipped: when the first token found is no number, minimum
  and maximum are both \<open>None\<close>, whatever the tokens behind it; when the first token is the
  number \<open>lo\<close> and the second is no number, the minimum is \<open>lo\<close> and the maximum is \<open>None\<close>.
\<close>

theorem extract_salary_info_unparseable_token:
  "(\<exists>r. extract_salary_info U x = Inr r)
   \<and> (s \<noteq> [] \<and> re_findall U amount_group amount_tail (u_lower U s) = a0 # rest
        \<and> parse_amount U a0 = Inl e
      \<longrightarrow> extract_salary_info U (PStr s) =
            Inr (None, None, Some (salary_periodicity (u_lower U s)), salary_currency s))
   \<and> (s' \<noteq> [] \<and> re_findall U amount_group amount_tail (u_lower U s') = b0 # b1 # rest'
        \<and> parse_amount U b0 = Inr lo \<and> parse_amount U b1 = Inl e'
      \<longrightarrow> extract_salary_info U (PStr s') =
            Inr (Some lo, None, Some (salary_periodicity (u_lower U s')), salary_currency s'))"
proof (intro conjI impI)
  show "\<exists>r. extract_salary_info U x = Inr r"
    by (rule extract_salary_info_returns)
next
  assume h: "s \<noteq> [] \<and> re_findall U amount_group amount_tail (u_lower U s) = a0 # rest
        \<and> parse_amount U a0 = Inl e"
  then have "e = ValueError"
    using parse_amount_raises by blast
  with h have "salary_bounds U (re_findall U amount_group amount_tail (u_lower U s)) = Inr (None, None)"
    by (cases rest) (simp_all add: except_ValueError_pass_def)
  with h show "extract_salary_info U (PStr s) =
            Inr (None, None, Some (salary_periodicity (u_lower U s)), salary_currency s)"
    using extract_salary_info_str by blast
next
  assume h: "s' \<noteq> [] \<and> re_findall U amount_group amount_tail (u_lower U s') = b0 # b1 # rest'
        \<and> parse_amount U b0 = Inr lo \<and> parse_amount U b1 = Inl e'"
  then have "e' = ValueError"
    using parse_amount_raises by blast
  with h have "salary_bounds U (re_findall U amount_group amount_tail (u_lower U s')) = Inr (Some lo, None)"
    by (simp add: except_ValueError_pass_def)
  with h show "extract_salary_info U (PStr s') =
            Inr (Some lo, None, Some (salary_periodicity (u_lower U s')), salary_currency s')"
    using extract_salary_info_str by blast
qed

theorem extract_salary_info_unparseable_token_witness:
  "(\<exists>r. extract_salary_info basic_db PNone = Inr r)
   \<and> str ''1.2.3 euros, 45 euros'' \<noteq> []
   \<and> re_findall basic_db amount_group amount_tail (u_lower basic_db (str ''1.2.3 euros, 45 euros''))
       = [str ''1.2.3'', str ''45 '']
   \<and> parse_amount basic_db (str ''1.2.3'') = Inl ValueError
   \<and> extract_salary_info basic_db (PStr (str ''1.2.3 euros, 45 euros'')) =
       Inr (None, None, Some (str ''monthly''), str ''EUR'')
   \<and> str ''45 euros 1.2.3 euros'' \<noteq> []
   \<and> re_findall basic_db amount_group amount_tail (u_lower basic_db (str ''45 euros 1.2.3 euros''))
       = [str ''45 '', str ''1.2.3'']
   \<and> parse_amount basic_db (str ''45 '') = Inr 45
   \<and> extract_salary_info basic_db (PStr (str ''45 euros 1.2.3 euros'')) =
       Inr (Some 45, None, Some (str ''monthly''), str ''EUR'')"
proof -
  have a: "str ''1.2.3 euros, 45 euros'' \<noteq> []" "str ''45 euros 1.2.3 euros'' \<noteq> []"
    by (simp_all add: str_def)
  have b: "re_findall basic_db amount_group amount_tail (u_lower basic_db (str ''1.2.3 euros, 45 euros''))
       = [str ''1.2.3'', str ''45 '']"
    by (simp add: eval_defs)
  have c: "re_findall basic_db amount_group amount_tail (u_lower basic_db (str ''45 euros 1.2.3 euros''))
       = [str ''45 '', str ''1.2.3'']"
    by (simp add: eval_defs)
  have d: "parse_amount basic_db (str ''1.2.3'') = Inl ValueError" "parse_amount basic_db (str ''45 '') = Inr 45"
    by (simp_all add: eval_defs)
  have p: "salary_periodicity (u_lower basic_db (str ''1.2.3 euros, 45 euros'')) = str ''monthly''"
     "salary_periodicity (u_lower basic_db (str ''45 euros 1.2.3 euros'')) = str ''monthly''"
    by (simp_all add: eval_defs)
  have q: "salary_currency (str ''1.2.3 euros, 45 euros'') = str ''EUR''"
     "salary_currency (str ''45 euros 1.2.3 euros'') = str ''EUR''"
    by (simp_all add: eval_defs)
  from extract_salary_info_unparseable_token [of basic_db PNone "str ''1.2.3 euros, 45 euros''"
      "str ''1.2.3''" "[str ''45 '']" ValueError "str ''45 euros 1.2.3 euros''" "str ''45 ''" "str ''1.2.3''" "[]" 45 ValueError]
  show ?thesis
    unfolding p q using a b c d by simp
qed

text \<open>
  C3 as the specification states it fails on \<open>"1.2.3 euros, 45 euros"\<close>: the tokens found are
  \<open>"1.2.3"\<close>, which is no number, and \<open>"45 "\<close>, which is 45. With the first one removed the
  function would give the minimum 45; it returns \<open>None\<close> for both.
\<close>

theorem extract_salary_info_unparseable_token_counterexample:
  "re_findall basic_db amount_group amount_tail (u_lower basic_db (str ''1.2.3 euros, 45 euros''))
     = [str ''1.2.3'', str ''45 '']
   \<and> parse_amount basic_db (str ''1.2.3'') = Inl ValueError
   \<and> parse_amount basic_db (str ''45 '') = Inr 45
   \<and> extract_salary_info basic_db (PStr (str ''1.2.3 euros, 45 euros'')) =
       Inr (None, None, Some (str ''monthly''), str ''EUR'')
   \<and> salary_bounds basic_db [str ''45 ''] = Inr (Some 45, None)"
  by (simp add: extract_salary_info_def eval_defs)

text \<open>
  C7. On every value each of the five normalisers returns and does not raise. A value that
  is no string gives the empty string, \<open>(None, None, None, "EUR")\<close>, \<open>UNKNOWN\<close>,
  \<open>NOT_SPECIFIED\<close> and the empty list; a text in which no amount is found gives
  \<open>(None, None, periodicity, currency)\<close>. (\<open>extract_keywords\<close> with its default vocabulary.)
\<close>

theorem normalisers_never_raise:
  "(\<exists>v. clean_text_field U x = Inr v)
   \<and> (\<exists>v. extract_salary_info U x = Inr v)
   \<and> (\<exists>v. categorize_contract_type U x = Inr v)
   \<and> (\<exists>v. extract_experience_level U x = Inr v)
   \<and> (\<exists>v. extract_keywords U x = Inr v)
   \<and> (\<not> is_str x \<longrightarrow>
        clean_text_field U x = Inr []
        \<and> extract_salary_info U x = Inr (None, None, None, str ''EUR'')
        \<and> categorize_contract_type U x = Inr (str ''UNKNOWN'')
        \<and> extract_experience_level U x = Inr (str ''NOT_SPECIFIED'')
        \<and> extract_keywords U x = Inr [])
   \<and> (s \<noteq> [] \<and> re_findall U amount_group amount_tail (u_lower U s) = [] \<longrightarrow>
        extract_salary_info U (PStr s) =
          Inr (None, None, Some (salary_periodicity (u_lower U s)), salary_currency s))"
proof (intro conjI impI)
  show "\<exists>v. extract_salary_info U x = Inr v"
    by (rule extract_salary_info_returns)
  show "extract_salary_info U (PStr s) =
          Inr (None, None, Some (salary_periodicity (u_lower U s)), salary_currency s)"
    if "s \<noteq> [] \<and> re_findall U amount_group amount_tail (u_lower U s) = []"
    using that by (simp add: extract_salary_info_str)
  show "\<exists>v. clean_text_field U x = Inr v"
    by (cases x) (simp_all add: clean_text_field_def Let_def)
  show "\<exists>v. categorize_contract_type U x = Inr v"
    by (cases x) (simp_all add: categorize_contract_type_def Let_def)
  show "\<exists>v. extract_experience_level U x = Inr v"
    by (cases x) (simp_all add: extract_experience_level_def Let_def)
  show "\<exists>v. extract_keywords U x = Inr v"
    by (cases x) (simp_all add: extract_keywords_def Let_def)
qed (simp_all add: clean_text_field_def extract_salary_info_def categorize_contract_type_def
      extract_experience_level_def extract_keywords_def)

theorem normalisers_never_raise_witness:
  "(\<exists>v. clean_text_field basic_db (PInt 7) = Inr v)
   \<and> (\<exists>v. extract_salary_info basic_db (PInt 7) = Inr v)
   \<and> (\<exists>v. categorize_contract_type basic_db (PInt 7) = Inr v)
   \<and> (\<exists>v. extract_experience_level basic_db (PInt 7) = Inr v)
   \<and> (\<exists>v. extract_keywords basic_db (PInt 7) = Inr v)
   \<and> \<not> is_str (PInt 7)
   \<and> clean_text_field basic_db (PInt 7) = Inr []
   \<and> extract_salary_info basic_db (PInt 7) = Inr (None, None, None, str ''EUR'')
   \<and> categorize_contract_type basic_db (PInt 7) = Inr (str ''UNKNOWN'')
   \<and> extract_experience_level basic_db (PInt 7) = Inr (str ''NOT_SPECIFIED'')
   \<and> extract_keywords basic_db (PInt 7) = Inr []
   \<and> str ''Salaire non pr'' @ [233] @ str ''cis'' @ [233] \<noteq> []
   \<and> re_findall basic_db amount_group amount_tail
        (u_lower basic_db (str ''Salaire non pr'' @ [233] @ str ''cis'' @ [233])) = []
   \<and> extract_salary_info basic_db (PStr (str ''Salaire non pr'' @ [233] @ str ''cis'' @ [233])) =
        Inr (None, None, Some (str ''monthly''), str ''EUR'')"
proof -
  let ?s = "str ''Salaire non pr'' @ [233] @ str ''cis'' @ [233]"
  have a: "?s \<noteq> []"
    by (simp add: str_def)
  have b: "re_findall basic_db amount_group amount_tail (u_lower basic_db ?s) = []"
    by (simp add: eval_defs)
  have c: "salary_periodicity (u_lower basic_db ?s) = str ''monthly''"
    "salary_currency ?s = str ''EUR''"
    by (simp_all add: eval_defs)
  from normalisers_never_raise [of basic_db "PInt 7" ?s] a b show ?thesis
    unfolding c by simp
qed

section \<open>Properties of the frames\<close>

lemmas frame_defs = sample_frame_def df_get_def column_mapping_def str_def

lemma map_of_assign: "map_of (assign c v cs) c' = (if c' = c then Some v else map_of cs c')"
  by (induction cs) auto

lemma assign_same: "map_of cs c = Some v \<Longrightarrow> assign c v cs = cs"
  by (induction cs) (auto split: if_splits)

lemma df_get_df_set: "df_get (df_set d c v) c' = (if c' = c then Some v else df_get d c')"
  by (simp add: df_get_def df_set_def map_of_assign)

lemma df_set_same: "df_get d c = Some v \<Longrightarrow> df_set d c v = d"
  by (simp add: df_get_def df_set_def assign_same)

lemma series_apply_projr:
  "(\<And>x. x \<in> set xs \<Longrightarrow> \<exists>y. f x = Inr y) \<Longrightarrow> series_apply f xs = Inr (map (\<lambda>x. projr (f x)) xs)"
proof (induction xs)
  case Nil
  then show ?case by simp
next
  case (Cons a xs)
  then obtain y where "f a = Inr y" by auto
  moreover have "series_apply f xs = Inr (map (\<lambda>x. projr (f x)) xs)"
    using Cons by simp
  ultimately show ?case by simp
qed

lemma extract_keywords_returns: "\<exists>ks. extract_keywords U x = Inr ks"
  by (cases x) (simp_all add: extract_keywords_def Let_def)

lemma add_tech_flags_closed:
  assumes "df_get d (str ''extracted_keywords'') = Some cells"
    and "\<And>c. c \<in> set cells \<Longrightarrow> \<exists>xs. c = PList xs"
    and "\<And>t. t \<in> set techs \<Longrightarrow> has_column t \<noteq> str ''extracted_keywords''"
  shows "add_tech_flags techs d =
           Inr (foldl (\<lambda>d tech. df_set d (has_column tech) (map (\<lambda>c. projr (py_in_list tech c)) cells))
                      d techs)"
  using assms
proof (induction techs arbitrary: d)
  case Nil
  then show ?case by simp
next
  case (Cons t techs)
  have "\<And>c. c \<in> set cells \<Longrightarrow> \<exists>y. py_in_list t c = Inr y"
    using Cons.prems(2) by fastforce
  then have sa: "series_apply (py_in_list t) cells = Inr (map (\<lambda>c. projr (py_in_list t c)) cells)"
    by (rule series_apply_projr)
  have g: "df_get (df_set d (has_column t) (map (\<lambda>c. projr (py_in_list t c)) cells)) (str ''extracted_keywords'') = Some cells"
    using Cons.prems(1) Cons.prems(3) [of t] by (auto simp add: df_get_df_set)
  show ?case
    using Cons.prems Cons.IH [OF g] sa by simp
qed

lemmas name_defs = has_column_def str_replace_def str_def main_techs_def

lemma apply_keyword_analysis_closed:
  assumes "df_get d (str ''description_clean'') = Some descriptions"
  shows "apply_keyword_analysis U (Some d) = Inr (Some (keyword_frame U descriptions d))"
proof -
  let ?cells = "map (\<lambda>x. PList (map PStr (projr (extract_keywords U x)))) descriptions"
  let ?d0 = "df_set d (str ''extracted_keywords'') ?cells"
  let ?d1 = "foldl (\<lambda>d tech. df_set d (has_column tech) (map (\<lambda>c. projr (py_in_list tech c)) ?cells)) ?d0 main_techs"
  have a: "series_apply (extract_keywords U) descriptions = Inr (map (\<lambda>x. projr (extract_keywords U x)) descriptions)"
    by (rule series_apply_projr) (rule extract_keywords_returns)
  have b: "add_tech_flags main_techs ?d0 = Inr ?d1"
    by (rule add_tech_flags_closed) (auto simp: df_get_df_set name_defs)
  have c: "df_get ?d1 (str ''extracted_keywords'') = Some ?cells"
    by (simp add: df_get_df_set name_defs)
  have d: "series_apply py_len ?cells = Inr (map (\<lambda>c. projr (py_len c)) ?cells)"
    by (rule series_apply_projr) auto
  show ?thesis
    unfolding apply_keyword_analysis_def keyword_frame_def Let_def
    using assms a b c d by (simp add: comp_def)
qed

lemma df_get_keyword_frame_other:
  "c \<notin> set derived_columns \<Longrightarrow> df_get (keyword_frame U descriptions d) c = df_get d c"
  by (simp add: keyword_frame_def Let_def derived_columns_def df_get_df_set name_defs)

lemma keyword_frame_twice:
  "keyword_frame U descriptions (keyword_frame U descriptions d) = keyword_frame U descriptions d"
proof -
  let ?cells = "map (\<lambda>x. PList (map PStr (projr (extract_keywords U x)))) descriptions"
  let ?r = "keyword_frame U descriptions d"
  have g: "df_get ?r (str ''extracted_keywords'') = Some ?cells"
    "\<And>t. t \<in> set main_techs \<Longrightarrow> df_get ?r (has_column t) = Some (map (\<lambda>c. projr (py_in_list t c)) ?cells)"
    "df_get ?r (str ''keyword_count'') = Some (map (\<lambda>c. projr (py_len c)) ?cells)"
    by (auto simp add: keyword_frame_def Let_def df_get_df_set name_defs)
  have s0: "df_set ?r (str ''extracted_keywords'') ?cells = ?r"
    using g(1) by (rule df_set_same)
  have s1: "foldl (\<lambda>d tech. df_set d (has_column tech) (map (\<lambda>c. projr (py_in_list tech c)) ?cells)) ?r main_techs = ?r"
    using g(2) by (simp add: main_techs_def df_set_same)
  have s2: "df_set ?r (str ''keyword_count'') (map (\<lambda>c. projr (py_len c)) ?cells) = ?r"
    using g(3) by (rule df_set_same)
  show ?thesis
    apply (subst (1) keyword_frame_def)
    apply (simp only: Let_def s0 s1 s2)
    done
qed

lemma keyword_frame_derived:
  "c \<in> set derived_columns \<Longrightarrow> df_get (keyword_frame U descriptions d) c = df_get (keyword_frame U descriptions d') c"
  by (auto simp add: keyword_frame_def Let_def derived_columns_def df_get_df_set name_defs)

text \<open>
  C8. \<open>apply_keyword_analysis\<close> returns \<open>None\<close> for \<open>None\<close> and returns a frame without a
  \<open>description_clean\<close> column as it is. It is idempotent: on the frame it returned it
  returns that same frame. It is a function of the \<open>description_clean\<close> column: two frames
  with the same such column get the same \<open>extracted_keywords\<close>, \<open>has_*\<close> and \<open>keyword_count\<close>
  columns, and these columns are all present.
\<close>

theorem apply_keyword_analysis_idempotent:
  "apply_keyword_analysis U None = Inr None
   \<and> (df_get d (str ''description_clean'') = None \<longrightarrow>
        apply_keyword_analysis U (Some d) = Inr (Some d))
   \<and> (\<exists>d1. apply_keyword_analysis U (Some d) = Inr (Some d1)
           \<and> apply_keyword_analysis U (Some d1) = Inr (Some d1))
   \<and> (df_get d (str ''description_clean'') = Some descriptions
        \<and> df_get d' (str ''description_clean'') = Some descriptions \<longrightarrow>
        (\<exists>d1 d1'. apply_keyword_analysis U (Some d) = Inr (Some d1)
                 \<and> apply_keyword_analysis U (Some d') = Inr (Some d1')
                 \<and> list_all (\<lambda>c. df_get d1 c \<noteq> None) derived_columns
                 \<and> map (df_get d1') derived_columns = map (df_get d1) derived_columns))"
proof (intro conjI impI)
  show "apply_keyword_analysis U None = Inr None"
    by (simp add: apply_keyword_analysis_def)
  show "apply_keyword_analysis U (Some d) = Inr (Some d)"
    if "df_get d (str ''description_clean'') = None"
    using that by (simp add: apply_keyword_analysis_def)
  show "\<exists>d1. apply_keyword_analysis U (Some d) = Inr (Some d1)
           \<and> apply_keyword_analysis U (Some d1) = Inr (Some d1)"
  proof (cases "df_get d (str ''description_clean'')")
    case None
    then have "apply_keyword_analysis U (Some d) = Inr (Some d)"
      by (simp add: apply_keyword_analysis_def)
    then show ?thesis
      by blast
  next
    case (Some descs)
    let ?r = "keyword_frame U descs d"
    have 1: "apply_keyword_analysis U (Some d) = Inr (Some ?r)"
      using Some by (rule apply_keyword_analysis_closed)
    have "str ''description_clean'' \<notin> set derived_columns"
      by (simp add: derived_columns_def name_defs)
    then have "df_get ?r (str ''description_clean'') = Some descs"
      using Some by (simp add: df_get_keyword_frame_other)
    then have 2: "apply_keyword_analysis U (Some ?r) = Inr (Some ?r)"
      using apply_keyword_analysis_closed [of ?r descs U] keyword_frame_twice by simp
    from 1 2 show ?thesis
      by blast
  qed
  show "\<exists>d1 d1'. apply_keyword_analysis U (Some d) = Inr (Some d1)
                 \<and> apply_keyword_analysis U (Some d') = Inr (Some d1')
                 \<and> list_all (\<lambda>c. df_get d1 c \<noteq> None) derived_columns
                 \<and> map (df_get d1') derived_columns = map (df_get d1) derived_columns"
    if h: "df_get d (str ''description_clean'') = Some descriptions
        \<and> df_get d' (str ''description_clean'') = Some descriptions"
  proof -
    have 1: "apply_keyword_analysis U (Some d) = Inr (Some (keyword_frame U descriptions d))"
      using h by (simp add: apply_keyword_analysis_closed)
    have 2: "apply_keyword_analysis U (Some d') = Inr (Some (keyword_frame U descriptions d'))"
      using h by (simp add: apply_keyword_analysis_closed)
    have 3: "map (df_get (keyword_frame U descriptions d')) derived_columns
               = map (df_get (keyword_frame U descriptions d)) derived_columns"
      using keyword_frame_derived by (simp cong: map_cong)
    have 4: "list_all (\<lambda>c. df_get (keyword_frame U descriptions d) c \<noteq> None) derived_columns"
      by (simp add: keyword_frame_def Let_def derived_columns_def df_get_df_set name_defs)
    from 1 2 3 4 show ?thesis
      by blast
  qed
qed

theorem apply_keyword_analysis_idempotent_witness:
  "df_get \<lparr>nrows = 1, cols = [(str ''titre'', [PStr (str ''Dev'')])]\<rparr> (str ''description_clean'')
     = None
   \<and> apply_keyword_analysis basic_db
        (Some \<lparr>nrows = 1, cols = [(str ''titre'', [PStr (str ''Dev'')])]\<rparr>)
       = Inr (Some \<lparr>nrows = 1, cols = [(str ''titre'', [PStr (str ''Dev'')])]\<rparr>)
   \<and> (\<exists>d1. apply_keyword_analysis basic_db (Some sample_frame) = Inr (Some d1)
           \<and> apply_keyword_analysis basic_db (Some d1) = Inr (Some d1))
   \<and> df_get sample_frame (str ''description_clean'')
       = Some [PStr (str ''Python, SQL''), PStr (str ''Vente'')]
   \<and> df_get \<lparr>nrows = 2,
              cols = [(str ''description_clean'',
                       [PStr (str ''Python, SQL''), PStr (str ''Vente'')])]\<rparr>
         (str ''description_clean'')
       = Some [PStr (str ''Python, SQL''), PStr (str ''Vente'')]
   \<and> (\<exists>d1 d1'.
         apply_keyword_analysis basic_db (Some sample_frame) = Inr (Some d1)
         \<and> apply_keyword_analysis basic_db
              (Some \<lparr>nrows = 2,
                     cols = [(str ''description_clean'',
                              [PStr (str ''Python, SQL''), PStr (str ''Vente'')])]\<rparr>)
             = Inr (Some d1')
         \<and> list_all (\<lambda>c. df_get d1 c \<noteq> None) derived_columns
         \<and> map (df_get d1') derived_columns = map (df_get d1) derived_columns)"
proof -
  let ?b = "\<lparr>nrows = 1, cols = [(str ''titre'', [PStr (str ''Dev'')])]\<rparr>"
  let ?c = "\<lparr>nrows = 2,
              cols = [(str ''description_clean'',
                       [PStr (str ''Python, SQL''), PStr (str ''Vente'')])]\<rparr>"
  let ?ds = "[PStr (str ''Python, SQL''), PStr (str ''Vente'')]"
  have b: "df_get ?b (str ''description_clean'') = None"
    by (simp add: df_get_def str_def)
  have s: "df_get sample_frame (str ''description_clean'') = Some ?ds"
    by (simp add: df_get_def sample_frame_def str_def)
  have c: "df_get ?c (str ''description_clean'') = Some ?ds"
    by (simp add: df_get_def)
  from apply_keyword_analysis_idempotent [of basic_db ?b]
    apply_keyword_analysis_idempotent [of basic_db sample_frame ?ds ?c] b s c
  show ?thesis
    by blast
qed

lemma nrows_df_set: "nrows (df_set d c v) = nrows d"
  by (simp add: df_set_def)

lemma map_fst_assign:
  "map fst (assign c v cs) = (if c \<in> set (map fst cs) then map fst cs else map fst cs @ [c])"
  by (induction c v cs rule: assign.induct) (fastforce simp: image_iff)+

lemma df_columns_df_set: "set (df_columns (df_set d c v)) = insert c (set (df_columns d))"
  by (auto simp add: df_columns_def df_set_def map_fst_assign)

lemma in_df_columns: "c \<in> set (df_columns d) \<longleftrightarrow> df_get d c \<noteq> None"
  by (simp add: df_columns_def df_get_def map_of_eq_None_iff)

lemma select_renamed_closed:
  assumes "\<And>c. c \<in> set cs \<Longrightarrow> df_get d c \<noteq> None"
    and "\<And>c. c \<in> set cs \<Longrightarrow> map_of column_mapping c \<noteq> None"
  shows "select_renamed d cs =
           Inr (map (\<lambda>c. (the (map_of column_mapping c), the (df_get d c))) cs)"
  using assms
proof (induction cs)
  case Nil
  then show ?case by simp
next
  case (Cons a cs)
  obtain cells target where "df_get d a = Some cells" "map_of column_mapping a = Some target"
    using Cons.prems [of a] by auto
  moreover have "select_renamed d cs =
           Inr (map (\<lambda>c. (the (map_of column_mapping c), the (df_get d c))) cs)"
    using Cons by simp
  ultimately show ?case by simp
qed

lemma map_of_map_inj:
  assumes "inj_on f (insert c (set cs))"
  shows "map_of (map (\<lambda>x. (f x, g x)) cs) (f c) = (if c \<in> set cs then Some (g c) else None)"
  using assms by (induction cs) (auto simp: inj_on_def)

lemma nrows_add_missing: "nrows (add_missing ts r) = nrows r"
  by (induction ts arbitrary: r) (simp_all add: nrows_df_set)

lemma df_get_add_missing:
  "df_get (add_missing ts r) c =
     (if c \<in> set ts \<and> df_get r c = None then Some (replicate (nrows r) PNone) else df_get r c)"
  by (induction ts arbitrary: r)
     (auto simp add: nrows_df_set df_get_df_set in_df_columns)

lemma df_columns_add_missing:
  "set (df_columns (add_missing ts r)) = set (df_columns r) \<union> set ts"
  by (induction ts arbitrary: r) (auto simp add: df_columns_df_set in_df_columns)

lemma nrows_convert_dates: "nrows (convert_dates conv cs r) = nrows r"
  by (induction cs arbitrary: r) (simp_all add: nrows_df_set split: option.splits)

lemma df_columns_convert_dates: "set (df_columns (convert_dates conv cs r)) = set (df_columns r)"
  by (induction cs arbitrary: r)
     (auto simp add: df_columns_df_set in_df_columns split: option.splits)

lemma df_get_convert_dates:
  "distinct cs \<Longrightarrow>
   df_get (convert_dates conv cs r) c =
     (if c \<in> set cs then map_option (to_datetime conv) (df_get r c) else df_get r c)"
  by (induction cs arbitrary: r) (auto simp add: df_get_df_set split: option.splits)

lemma to_datetime_None: "to_datetime conv (replicate n PNone) = replicate n PNaT"
  by (simp add: to_datetime_def list_eq_iff_nth_eq)

lemmas mapping_names = column_mapping_def date_columns_def str_def

lemma distinct_sources: "distinct (map fst column_mapping)"
  by (simp add: mapping_names)

lemma distinct_targets: "distinct (map snd column_mapping)"
  by (simp add: mapping_names)

lemma source_no_target: "str ''source'' \<notin> set (map snd column_mapping)"
  by (simp add: mapping_names)


lemma map_of_map_notin:
  "x \<notin> f ` set cs \<Longrightarrow> map_of (map (\<lambda>c. (f c, g c)) cs) x = None"
  by (induction cs) auto

lemma mapping_target:
  "(src, tgt) \<in> set column_mapping \<Longrightarrow> map_of column_mapping src = Some tgt"
  using distinct_sources by simp

lemma distinct_snd_inj:
  "distinct (map snd M) \<Longrightarrow> (x, t) \<in> set M \<Longrightarrow> (y, t) \<in> set M \<Longrightarrow> x = y"
  by (induction M) (auto simp: image_iff)

lemma mapping_inj: "inj_on (\<lambda>c. the (map_of column_mapping c)) (set (map fst column_mapping))"
proof (rule inj_onI)
  fix x y
  assume x: "x \<in> set (map fst column_mapping)" and y: "y \<in> set (map fst column_mapping)"
    and e: "the (map_of column_mapping x) = the (map_of column_mapping y)"
  from x obtain tx where tx: "(x, tx) \<in> set column_mapping" by auto
  from y obtain ty where ty: "(y, ty) \<in> set column_mapping" by auto
  from tx ty e have "tx = ty"
    by (simp add: mapping_target)
  with tx ty show "x = y"
    using distinct_snd_inj [OF distinct_targets] by blast
qed

text \<open>The frame that \<open>df[columns_to_keep]\<close> and the renaming give.\<close>

lemma selected_frame:
  fixes d :: dataframe
  defines "cs \<equiv> filter (\<lambda>col. col \<in> set (df_columns d)) (map fst column_mapping)"
  defines "sel \<equiv> map (\<lambda>c. (the (map_of column_mapping c), the (df_get d c))) cs"
  shows "select_renamed d cs = Inr sel"
    and "(src, tgt) \<in> set column_mapping \<Longrightarrow> map_of sel tgt = df_get d src"
    and "map_of sel (str ''source'') = None"
    and "set (map fst sel) \<subseteq> set (map snd column_mapping)"
proof -
  have keys: "set cs \<subseteq> set (map fst column_mapping)"
    by (auto simp: cs_def)
  have present: "c \<in> set cs \<longleftrightarrow> c \<in> set (map fst column_mapping) \<and> df_get d c \<noteq> None" for c
    by (auto simp: cs_def in_df_columns)
  show "select_renamed d cs = Inr sel"
    unfolding sel_def
  proof (rule select_renamed_closed)
    fix c assume "c \<in> set cs"
    then show "df_get d c \<noteq> None" "map_of column_mapping c \<noteq> None"
      using present [of c] by (auto simp: map_of_eq_None_iff)
  qed
  show "map_of sel tgt = df_get d src" if m: "(src, tgt) \<in> set column_mapping"
  proof -
    have k: "src \<in> set (map fst column_mapping)"
      using m by force
    have t: "the (map_of column_mapping src) = tgt"
      using m by (simp add: mapping_target)
    have "insert src (set cs) \<subseteq> set (map fst column_mapping)"
      using keys k by auto
    then have "inj_on (\<lambda>c. the (map_of column_mapping c)) (insert src (set cs))"
      by (rule inj_on_subset [OF mapping_inj])
    from map_of_map_inj [OF this, of "\<lambda>c. the (df_get d c)"]
    have "map_of sel tgt = (if src \<in> set cs then Some (the (df_get d src)) else None)"
      by (simp add: sel_def t)
    then show ?thesis
      using present [of src] k by auto
  qed
  have targets: "c \<in> set cs \<Longrightarrow> the (map_of column_mapping c) \<in> set (map snd column_mapping)" for c
  proof -
    assume "c \<in> set cs"
    then obtain t where "(c, t) \<in> set column_mapping"
      using keys by auto
    then show ?thesis
      by (force simp add: mapping_target)
  qed
  have "map fst sel = map (\<lambda>c. the (map_of column_mapping c)) cs"
    by (simp add: sel_def comp_def)
  then show "set (map fst sel) \<subseteq> set (map snd column_mapping)"
    using targets by auto
  have "str ''source'' \<notin> (\<lambda>c. the (map_of column_mapping c)) ` set cs"
    using targets source_no_target by auto
  then show "map_of sel (str ''source'') = None"
    unfolding sel_def by (rule map_of_map_notin)
qed

text \<open>
  C5. \<open>prepare_job_data_for_loading\<close> never raises. It returns \<open>None\<close> for \<open>None\<close>, for a frame
  without rows and for a frame that has none of the source columns of the mapping, and a
  frame in every other case. That frame has the rows of the input, its columns are the
  target columns of the mapping and \<open>source\<close>, every cell of \<open>source\<close> is
  \<open>'FRANCE_TRAVAIL'\<close>, and the target column of each entry of the mapping holds the cells
  of the source column when the input has it and null cells (\<open>None\<close>) when it has not;
  the three date columns have gone through \<open>pd.to_datetime\<close>, where null is \<open>NaT\<close>.
\<close>

theorem prepare_job_data_for_loading_result:
  "prepare_job_data_for_loading conv None = Inr None
   \<and> (nrows d = 0 \<or> list_all (\<lambda>src. df_get d src = None) (map fst column_mapping)
      \<longrightarrow> prepare_job_data_for_loading conv (Some d) = Inr None)
   \<and> (nrows d \<noteq> 0 \<and> list_ex (\<lambda>src. df_get d src \<noteq> None) (map fst column_mapping)
      \<longrightarrow> (\<exists>r. prepare_job_data_for_loading conv (Some d) = Inr (Some r)
               \<and> nrows r = nrows d
               \<and> set (df_columns r) = set (map snd column_mapping) \<union> {str ''source''}
               \<and> df_get r (str ''source'')
                   = Some (replicate (nrows d) (PStr (str ''FRANCE_TRAVAIL'')))
               \<and> list_all (\<lambda>(src, tgt). df_get r tgt =
                     (case df_get d src of
                        Some cells \<Rightarrow>
                          Some (if tgt \<in> set date_columns then to_datetime conv cells
                                else cells)
                      | None \<Rightarrow>
                          Some (replicate (nrows d)
                                  (if tgt \<in> set date_columns then PNaT else PNone))))
                   column_mapping))"
proof (intro conjI impI)
  let ?cs = "filter (\<lambda>col. col \<in> set (df_columns d)) (map fst column_mapping)"
  let ?sel = "map (\<lambda>c. (the (map_of column_mapping c), the (df_get d c))) ?cs"
  show "prepare_job_data_for_loading conv None = Inr None"
    by (simp add: prepare_job_data_for_loading_def)
  show "prepare_job_data_for_loading conv (Some d) = Inr None"
    if "nrows d = 0 \<or> list_all (\<lambda>src. df_get d src = None) (map fst column_mapping)"
  proof -
    from that have "nrows d = 0 \<or> ?cs = []"
      by (auto simp: filter_empty_conv in_df_columns list_all_iff)
    then show ?thesis
      by (auto simp add: prepare_job_data_for_loading_def Let_def)
  qed
  show "\<exists>r. prepare_job_data_for_loading conv (Some d) = Inr (Some r)
               \<and> nrows r = nrows d
               \<and> set (df_columns r) = set (map snd column_mapping) \<union> {str ''source''}
               \<and> df_get r (str ''source'')
                   = Some (replicate (nrows d) (PStr (str ''FRANCE_TRAVAIL'')))
               \<and> list_all (\<lambda>(src, tgt). df_get r tgt =
                     (case df_get d src of
                        Some cells \<Rightarrow>
                          Some (if tgt \<in> set date_columns then to_datetime conv cells
                                else cells)
                      | None \<Rightarrow>
                          Some (replicate (nrows d)
                                  (if tgt \<in> set date_columns then PNaT else PNone))))
                   column_mapping"
    if h: "nrows d \<noteq> 0 \<and> list_ex (\<lambda>src. df_get d src \<noteq> None) (map fst column_mapping)"
  proof -
    define r0 where "r0 = \<lparr>nrows = nrows d, cols = ?sel\<rparr>"
    define r1 where "r1 = add_missing (map snd column_mapping) r0"
    define r2 where "r2 = df_set r1 (str ''source'')
                            (replicate (nrows r1) (PStr (str ''FRANCE_TRAVAIL'')))"
    define r3 where "r3 = convert_dates conv date_columns r2"
    have ne: "?cs \<noteq> []"
      using h by (auto simp: filter_empty_conv in_df_columns list_ex_iff)
    have res: "prepare_job_data_for_loading conv (Some d) = Inr (Some r3)"
      using h ne selected_frame(1) [of d]
      by (simp add: prepare_job_data_for_loading_def Let_def r0_def r1_def r2_def r3_def)
    have n: "nrows r3 = nrows d"
      by (simp add: r3_def r2_def r1_def r0_def nrows_convert_dates nrows_df_set
          nrows_add_missing)
    have dd: "distinct date_columns" "str ''source'' \<notin> set date_columns"
      by (simp_all add: mapping_names)
    have g0: "df_get r0 tgt = df_get d src" if "(src, tgt) \<in> set column_mapping" for src tgt
      using selected_frame(2) [OF that, of d] by (simp add: r0_def df_get_def)
    have s0: "df_get r0 (str ''source'') = None"
      using selected_frame(3) [of d] by (simp add: r0_def df_get_def)
    have "df_columns r0 = map fst ?sel"
      by (simp add: r0_def df_columns_def)
    then have c0: "set (df_columns r0) \<subseteq> set (map snd column_mapping)"
      by (simp only: selected_frame(4))
    have cols: "set (df_columns r3) = set (map snd column_mapping) \<union> {str ''source''}"
      using c0 by (auto simp add: r3_def r2_def r1_def df_columns_convert_dates
          df_columns_df_set df_columns_add_missing)
    have src: "df_get r3 (str ''source'')
                 = Some (replicate (nrows d) (PStr (str ''FRANCE_TRAVAIL'')))"
      using dd by (simp add: r3_def r2_def r1_def df_get_convert_dates df_get_df_set
          nrows_add_missing r0_def)
    have each: "df_get r3 tgt =
                  (case df_get d src of
                     Some cells \<Rightarrow>
                       Some (if tgt \<in> set date_columns then to_datetime conv cells
                             else cells)
                   | None \<Rightarrow>
                       Some (replicate (nrows d)
                               (if tgt \<in> set date_columns then PNaT else PNone)))"
      if m: "(src, tgt) \<in> set column_mapping" for src tgt
    proof -
      have t: "tgt \<in> set (map snd column_mapping)" "tgt \<noteq> str ''source''"
        using m source_no_target by force+
      have "df_get r1 tgt = (case df_get d src of Some cells \<Rightarrow> Some cells
                             | None \<Rightarrow> Some (replicate (nrows d) PNone))"
        using t g0 [OF m] by (simp add: r1_def df_get_add_missing r0_def split: option.splits)
      then have "df_get r2 tgt = (case df_get d src of Some cells \<Rightarrow> Some cells
                             | None \<Rightarrow> Some (replicate (nrows d) PNone))"
        using t by (simp add: r2_def df_get_df_set)
      then show ?thesis
        using dd(1) by (simp add: r3_def df_get_convert_dates to_datetime_None
            split: option.splits)
    qed
    have "list_all (\<lambda>(src, tgt). df_get r3 tgt =
                     (case df_get d src of
                        Some cells \<Rightarrow>
                          Some (if tgt \<in> set date_columns then to_datetime conv cells
                                else cells)
                      | None \<Rightarrow>
                          Some (replicate (nrows d)
                                  (if tgt \<in> set date_columns then PNaT else PNone))))
                   column_mapping"
      unfolding list_all_iff using each by blast
    with res n cols src show ?thesis
      by blast
  qed
qed

theorem prepare_job_data_for_loading_result_witness:
  "nrows \<lparr>nrows = 0, cols = [(str ''id'', [])]\<rparr> = 0
   \<and> prepare_job_data_for_loading (\<lambda>column i. PTimestamp (int i))
        (Some \<lparr>nrows = 0, cols = [(str ''id'', [])]\<rparr>) = Inr None
   \<and> list_all (\<lambda>src. df_get \<lparr>nrows = 1, cols = [(str ''titre'', [PStr (str ''Dev'')])]\<rparr> src = None)
        (map fst column_mapping)
   \<and> prepare_job_data_for_loading (\<lambda>column i. PTimestamp (int i))
        (Some \<lparr>nrows = 1, cols = [(str ''titre'', [PStr (str ''Dev'')])]\<rparr>) = Inr None
   \<and> nrows sample_frame \<noteq> 0
   \<and> list_ex (\<lambda>src. df_get sample_frame src \<noteq> None) (map fst column_mapping)
   \<and> (\<exists>r. prepare_job_data_for_loading (\<lambda>column i. PTimestamp (int i)) (Some sample_frame)
             = Inr (Some r)
           \<and> nrows r = 2
           \<and> df_get r (str ''source'')
               = Some [PStr (str ''FRANCE_TRAVAIL''), PStr (str ''FRANCE_TRAVAIL'')]
           \<and> df_get r (str ''id'') = Some [PStr (str ''A1''), PStr (str ''B7'')]
           \<and> df_get r (str ''intitule'') = Some [PNone, PNone]
           \<and> df_get r (str ''date_creation'') = Some [PTimestamp 0, PNaT]
           \<and> df_get r (str ''date_actualisation'') = Some [PNaT, PNaT])"
proof -
  let ?conv = "\<lambda>(column :: pyval list) (i :: nat). PTimestamp (int i)"
  let ?a = "\<lparr>nrows = 0, cols = [(str ''id'', [])]\<rparr>"
  let ?b = "\<lparr>nrows = 1, cols = [(str ''titre'', [PStr (str ''Dev'')])]\<rparr>"
  have a: "nrows ?a = 0"
    by simp
  have b: "list_all (\<lambda>src. df_get ?b src = None) (map fst column_mapping)"
    by (simp add: frame_defs)
  have c: "nrows sample_frame \<noteq> 0"
    "list_ex (\<lambda>src. df_get sample_frame src \<noteq> None) (map fst column_mapping)"
    by (simp_all add: frame_defs)
  have ra: "prepare_job_data_for_loading ?conv (Some ?a) = Inr None"
    using prepare_job_data_for_loading_result [of ?conv ?a] a by blast
  have rb: "prepare_job_data_for_loading ?conv (Some ?b) = Inr None"
    using prepare_job_data_for_loading_result [of ?conv ?b] b by blast
  obtain r where r: "prepare_job_data_for_loading ?conv (Some sample_frame) = Inr (Some r)"
      "nrows r = nrows sample_frame"
      "df_get r (str ''source'')
         = Some (replicate (nrows sample_frame) (PStr (str ''FRANCE_TRAVAIL'')))"
      "list_all (\<lambda>(src, tgt). df_get r tgt =
                     (case df_get sample_frame src of
                        Some cells \<Rightarrow>
                          Some (if tgt \<in> set date_columns then to_datetime ?conv cells
                                else cells)
                      | None \<Rightarrow>
                          Some (replicate (nrows sample_frame)
                                  (if tgt \<in> set date_columns then PNaT else PNone))))
                   column_mapping"
    using prepare_job_data_for_loading_result [of ?conv sample_frame] c by blast
  have m: "(str ''id'', str ''id'') \<in> set column_mapping"
    "(str ''intitule'', str ''intitule'') \<in> set column_mapping"
    "(str ''dateCreation_iso'', str ''date_creation'') \<in> set column_mapping"
    "(str ''dateActualisation_iso'', str ''date_actualisation'') \<in> set column_mapping"
    by (simp_all add: column_mapping_def)
  have n: "nrows sample_frame = 2"
    by (simp add: sample_frame_def)
  have g: "df_get sample_frame (str ''id'') = Some [PStr (str ''A1''), PStr (str ''B7'')]"
    "df_get sample_frame (str ''intitule'') = None"
    "df_get sample_frame (str ''dateCreation_iso'') = Some [PStr (str ''2024-01-05''), PNone]"
    "df_get sample_frame (str ''dateActualisation_iso'') = None"
    by (simp_all add: sample_frame_def df_get_def str_def)
  have d: "str ''id'' \<notin> set date_columns" "str ''intitule'' \<notin> set date_columns"
    "str ''date_creation'' \<in> set date_columns" "str ''date_actualisation'' \<in> set date_columns"
    by (simp_all add: date_columns_def str_def)
  have t: "to_datetime ?conv [PStr (str ''2024-01-05''), PNone] = [PTimestamp 0, PNaT]"
    by (simp add: to_datetime_def upt_rec)
  have cols: "df_get r (str ''id'') = Some [PStr (str ''A1''), PStr (str ''B7'')]"
    "df_get r (str ''intitule'') = Some [PNone, PNone]"
    "df_get r (str ''date_creation'') = Some [PTimestamp 0, PNaT]"
    "df_get r (str ''date_actualisation'') = Some [PNaT, PNaT]"
    using r(4) m g d t n unfolding list_all_iff by (fastforce simp: numeral_2_eq_2)+
  from a b c ra rb r(1,2,3) n cols show ?thesis
    by (simp add: numeral_2_eq_2)
qed

section \<open>Properties of the extractor\<close>

lemmas extraction_defs = sample_fs_def wf_document_def files_to_process_def all_postings_def
  dict_get_def id_of_def str_def extract_jobs_to_dataframe_def extract_job_offers_def
  in_set_def py_eq_def Let_def

text \<open>
  The test of the set on identifiers is an equivalence, and it respects the truth value.
\<close>

lemma py_eq_sym: "py_eq a b \<Longrightarrow> py_eq b a"
  by (auto simp: py_eq_def split: option.splits)

lemma py_eq_trans: "py_eq a b \<Longrightarrow> py_eq b c \<Longrightarrow> py_eq a c"
  by (auto simp: py_eq_def split: option.splits)

lemma py_eq_refl: "py_eq a a"
  by (cases a) (auto simp: py_eq_def)

lemma py_eq_truthy: "py_eq a b \<Longrightarrow> truthy a = truthy b"
  by (cases a; cases b) (auto simp: py_eq_def split: if_splits)

lemma in_set_Cons: "in_set k (i # ids) \<longleftrightarrow> py_eq k i \<or> in_set k ids"
  by (simp add: in_set_def)

lemma in_set_cong: "py_eq i k \<Longrightarrow> in_set i ids = in_set k ids"
  unfolding in_set_def list_ex_iff
  by (meson py_eq_sym py_eq_trans)

lemma wf_offer_id: "wf_offer offer \<Longrightarrow> wf_id (id_of offer)"
  by (cases offer) (simp_all add: id_of_def)

lemma wf_id_hashable: "wf_id a \<Longrightarrow> hashable a"
  by (cases a) simp_all

lemma collect_offers_fresh:
  "list_all wf_offer offers \<Longrightarrow>
   collect_offers offers (all_offers, job_ids) =
     Inr (all_offers @ fresh job_ids offers, rev (map id_of (fresh job_ids offers)) @ job_ids)"
proof (induction offers arbitrary: all_offers job_ids)
  case Nil
  then show ?case by simp
next
  case (Cons offer rest)
  then obtain kvs where o: "offer = PDict kvs" "wf_id (dict_get kvs (str ''id'') PNone)"
    by (cases offer) auto
  have i: "id_of offer = dict_get kvs (str ''id'') PNone"
    by (simp add: id_of_def o)
  show ?case
    using Cons o(2) by (simp add: o(1) i [unfolded o(1)] Let_def wf_id_hashable id_of_def)
qed

lemma fresh_append: "fresh ids (xs @ ys) = fresh ids xs @ fresh (rev (map id_of (fresh ids xs)) @ ids) ys"
  by (induction xs arbitrary: ids) auto

lemma extract_job_offers_wf:
  assumes "wf_document (fs f)"
  shows "\<exists>offers. extract_job_offers fs f = Inr offers \<and> py_iter offers = Inr (postings_of (fs f))
           \<and> list_all wf_offer (postings_of (fs f))"
proof (cases "truthy (fs f)")
  case False
  then show ?thesis
    by (cases "fs f") (auto simp: extract_job_offers_def Let_def dict_get_def)
next
  case True
  with assms obtain kvs offers where d: "fs f = PDict kvs"
      "dict_get kvs (str ''resultats'') (PList []) = PList offers" "list_all wf_offer offers"
    by (auto simp: wf_document_def split: pyval.splits)
  then show ?thesis
    using True by (simp add: extract_job_offers_def Let_def)
qed

lemma collect_files_fresh:
  "list_all (\<lambda>f. wf_document (fs f)) files \<Longrightarrow>
   collect_files fs files (all_offers, job_ids) =
     Inr (all_offers @ fresh job_ids (all_postings fs files),
          rev (map id_of (fresh job_ids (all_postings fs files))) @ job_ids)"
proof (induction files arbitrary: all_offers job_ids)
  case Nil
  then show ?case by (simp add: all_postings_def)
next
  case (Cons f files)
  then obtain offers where e: "extract_job_offers fs f = Inr offers"
      "py_iter offers = Inr (postings_of (fs f))" "list_all wf_offer (postings_of (fs f))"
    using extract_job_offers_wf [of fs f] by auto
  have "collect_files fs (f # files) (all_offers, job_ids) =
          collect_files fs files (all_offers @ fresh job_ids (postings_of (fs f)),
             rev (map id_of (fresh job_ids (postings_of (fs f)))) @ job_ids)"
    using e by (simp add: collect_offers_fresh)
  also have "\<dots> = Inr (all_offers @ fresh job_ids (all_postings fs (f # files)),
          rev (map id_of (fresh job_ids (all_postings fs (f # files)))) @ job_ids)"
    using Cons by (simp add: all_postings_def fresh_append)
  finally show ?case .
qed

lemma fresh_subset: "set (fresh ids ps) \<subseteq> set ps"
  by (induction ps arbitrary: ids) auto

lemma fresh_truthy: "q \<in> set (fresh ids ps) \<Longrightarrow> truthy (id_of q)"
  by (induction ps arbitrary: ids) (auto split: if_splits)

lemma fresh_first:
  assumes "truthy k"
  shows "filter (\<lambda>q. py_eq (id_of q) k) (fresh ids ps) =
           (if in_set k ids then []
            else (case find (\<lambda>q. py_eq (id_of q) k) ps of None \<Rightarrow> [] | Some p \<Rightarrow> [p]))"
proof (induction ps arbitrary: ids)
  case Nil
  then show ?case by simp
next
  case (Cons p ps)
  show ?case
  proof (cases "py_eq (id_of p) k")
    case True
    then have t: "truthy (id_of p)"
      using assms py_eq_truthy by blast
    have s: "in_set (id_of p) ids = in_set k ids"
      using True by (rule in_set_cong)
    have "in_set k (id_of p # ids)"
      using True by (simp add: in_set_Cons py_eq_sym)
    then show ?thesis
      using True t s Cons [of "id_of p # ids"] Cons [of ids] by simp
  next
    case False
    then have "\<not> py_eq k (id_of p)"
      using py_eq_sym by blast
    then show ?thesis
      using False Cons [of "id_of p # ids"] Cons [of ids] by (simp add: in_set_Cons)
  qed
qed


lemma fresh_subseq: "subseq (fresh ids ps) ps"
  by (induction ps arbitrary: ids) auto

lemma extract_jobs_to_dataframe_fresh:
  assumes "list_all (\<lambda>f. wf_document (fs f)) (files_to_process local_files file_list)"
  shows "extract_jobs_to_dataframe float_column fs local_files file_list =
           Inr (if fresh [] (all_postings fs (files_to_process local_files file_list)) = []
                then None
                else Some (DataFrame float_column
                       (fresh [] (all_postings fs (files_to_process local_files file_list)))))"
proof (cases "files_to_process local_files file_list = []")
  case True
  then show ?thesis
    by (simp add: extract_jobs_to_dataframe_def all_postings_def)
next
  case False
  then show ?thesis
    using collect_files_fresh [OF assms, of "[]" "[]"]
    by (simp add: extract_jobs_to_dataframe_def)
qed

lemma find_refl:
  assumes "p \<in> set ps" "py_eq (id_of p) (id_of p)"
  shows "\<exists>p0. find (\<lambda>q. py_eq (id_of q) (id_of p)) ps = Some p0"
  using assms by (cases "find (\<lambda>q. py_eq (id_of q) (id_of p)) ps") (auto simp: find_None_iff)

text \<open>The frame of a list of postings with identifiers: its rows and its \<open>id\<close> column.\<close>

lemma map_of_keys: "map_of (map (\<lambda>k. (k, f k)) ks) k = (if k \<in> set ks then Some (f k) else None)"
  by (induction ks) auto

lemma truthy_id_present:
  "truthy (id_of q) \<Longrightarrow> map_of (dict_items q) (str ''id'') = Some (id_of q)"
  by (cases "map_of (dict_items q) (str ''id'')") (auto simp: id_of_def dict_get_def)

lemma DataFrame_rows: "nrows (DataFrame float_column records) = length records"
  by (simp add: DataFrame_def)

text \<open>The float of a positive integer is positive, so a true cell stays true in a
  \<open>float64\<close> column; a string is never changed.\<close>

lemma excess_bits_le: "0 < n \<Longrightarrow> 2 ^ excess_bits n \<le> n"
proof (induction n rule: excess_bits.induct)
  case (1 n)
  show ?case
  proof (cases "n < 2 ^ 53")
    case True
    then show ?thesis
      using 1(2) by (simp add: excess_bits.simps [of n])
  next
    case False
    then have "0 < n div 2"
      by simp
    then have "2 ^ excess_bits (n div 2) \<le> n div 2"
      using 1(1) False by blast
    then show ?thesis
      using False by (simp add: excess_bits.simps [of n])
  qed
qed

lemma nearest_double_pos: "0 < n \<Longrightarrow> 0 < nearest_double n"
proof -
  assume "0 < n"
  then have "2 ^ excess_bits n \<le> n"
    by (rule excess_bits_le)
  then have "0 < n div 2 ^ excess_bits n"
    by (simp add: div_greater_zero_iff)
  then show ?thesis
    by (simp add: nearest_double_def Let_def)
qed

lemma double_of_int_nonzero: "i \<noteq> 0 \<Longrightarrow> double_of_int i \<noteq> 0"
  using nearest_double_pos [of "nat i"] nearest_double_pos [of "nat (- i)"]
  by (auto simp: double_of_int_def)

lemma to_float64_truthy: "truthy cell \<Longrightarrow> truthy (to_float64 cell)"
  by (cases cell) (simp_all add: double_of_int_nonzero)

lemma to_float64_str: "is_str cell \<Longrightarrow> to_float64 cell = cell"
  by (cases cell) simp_all

lemma column_cells_truthy: "list_all truthy cells \<Longrightarrow> list_all truthy (column_cells float_column cells)"
  by (simp add: column_cells_def list_all_iff to_float64_truthy)

lemma column_cells_str: "list_all is_str cells \<Longrightarrow> column_cells float_column cells = cells"
  by (simp add: column_cells_def list_all_iff to_float64_str map_idI)

lemma DataFrame_id_column:
  assumes "records \<noteq> []" and "list_all (\<lambda>q. truthy (id_of q)) records"
  shows "df_get (DataFrame float_column records) (str ''id'') =
           Some (column_cells float_column (map id_of records))"
proof -
  have p: "map_of (dict_items q) (str ''id'') = Some (id_of q)" if "q \<in> set records" for q
    using assms(2) that by (auto simp: list_all_iff intro: truthy_id_present)
  obtain q where q: "q \<in> set records"
    using assms(1) by (cases records) auto
  have "str ''id'' \<in> set (map fst (dict_items q))"
    using p [OF q] by (metis map_of_eq_None_iff option.distinct(1) set_map)
  then have k: "str ''id'' \<in> set (rev (remdups (rev (concat (map (\<lambda>r. map fst (dict_items r)) records)))))"
    using q by auto
  have "map (\<lambda>r. dict_get (dict_items r) (str ''id'') PNaN) records = map id_of records"
    using p by (simp add: dict_get_def)
  then show ?thesis
    using k unfolding df_get_def DataFrame_def by (simp only: dataframe.select_convs map_of_keys if_True)
qed

text \<open>
  C1. On well-formed batch files, processed in the order of the list,
  \<open>extract_jobs_to_dataframe\<close> returns the frame of a list \<open>kept\<close> of postings, or \<open>None\<close> when
  that list is empty. \<open>kept\<close> is taken from the postings of the batches without changing
  their order. For every posting with an identifier (a true value), \<open>kept\<close> holds exactly one
  posting with an equal identifier, and it is the first posting with that identifier in
  batch order: the later ones are dropped, and nothing is merged or overwritten. When the
  batches hold no posting, the result is \<open>None\<close>. The frame has one row for each posting of
  \<open>kept\<close>. Its \<open>id\<close> column holds the identifiers of \<open>kept\<close>, row by row, as pandas stores
  them: unchanged when the identifiers are strings or when pandas does not make the column
  \<open>float64\<close>, and converted to floats otherwise (two distinct numbers can then show as the
  same float, though both postings are kept).
\<close>

theorem extract_jobs_to_dataframe_first_wins:
  assumes "list_all (\<lambda>f. wf_document (fs f)) (files_to_process local_files file_list)"
  shows "\<exists>kept.
           extract_jobs_to_dataframe float_column fs local_files file_list =
             Inr (if kept = [] then None else Some (DataFrame float_column kept))
           \<and> subseq kept (all_postings fs (files_to_process local_files file_list))
           \<and> (\<forall>p \<in> set (all_postings fs (files_to_process local_files file_list)).
                 truthy (id_of p) \<longrightarrow>
                 map Some (filter (\<lambda>q. py_eq (id_of q) (id_of p)) kept) =
                   [find (\<lambda>q. py_eq (id_of q) (id_of p))
                      (all_postings fs (files_to_process local_files file_list))])
           \<and> (all_postings fs (files_to_process local_files file_list) = [] \<longrightarrow>
                 extract_jobs_to_dataframe float_column fs local_files file_list = Inr None)
           \<and> nrows (DataFrame float_column kept) = length kept
           \<and> (kept \<noteq> [] \<longrightarrow>
                 df_get (DataFrame float_column kept) (str ''id'') =
                   Some (column_cells float_column (map id_of kept)))
           \<and> (kept \<noteq> [] \<and>
               (list_all (\<lambda>q. is_str (id_of q)) kept \<or> \<not> float_column (map id_of kept)) \<longrightarrow>
                 df_get (DataFrame float_column kept) (str ''id'') = Some (map id_of kept))"
proof -
  let ?ps = "all_postings fs (files_to_process local_files file_list)"
  let ?kept = "fresh [] ?ps"
  have r: "extract_jobs_to_dataframe float_column fs local_files file_list =
             Inr (if ?kept = [] then None else Some (DataFrame float_column ?kept))"
    using assms by (rule extract_jobs_to_dataframe_fresh)
  have one: "map Some (filter (\<lambda>q. py_eq (id_of q) (id_of p)) ?kept) =
               [find (\<lambda>q. py_eq (id_of q) (id_of p)) ?ps]"
    if p: "p \<in> set ?ps" and t: "truthy (id_of p)" for p
  proof -
    obtain p0 where "find (\<lambda>q. py_eq (id_of q) (id_of p)) ?ps = Some p0"
      using find_refl [OF p py_eq_refl] by blast
    then show ?thesis
      using fresh_first [OF t, of "[]" ?ps] by (simp add: in_set_def)
  qed
  have none: "?ps = [] \<longrightarrow>
              extract_jobs_to_dataframe float_column fs local_files file_list = Inr None"
    using r by auto
  have "list_all (\<lambda>q. truthy (id_of q)) ?kept"
    using fresh_truthy by (auto simp: list_all_iff)
  then have col: "?kept \<noteq> [] \<longrightarrow>
                  df_get (DataFrame float_column ?kept) (str ''id'') =
                    Some (column_cells float_column (map id_of ?kept))"
    using DataFrame_id_column by blast
  have same: "column_cells float_column (map id_of ?kept) = map id_of ?kept"
    if "list_all (\<lambda>q. is_str (id_of q)) ?kept \<or> \<not> float_column (map id_of ?kept)"
  proof (cases "float_column (map id_of ?kept)")
    case True
    with that have "list_all is_str (map id_of ?kept)"
      by (simp add: list_all_iff)
    then show ?thesis
      by (rule column_cells_str)
  next
    case False
    then show ?thesis
      by (simp add: column_cells_def)
  qed
  have col': "?kept \<noteq> [] \<and>
      (list_all (\<lambda>q. is_str (id_of q)) ?kept \<or> \<not> float_column (map id_of ?kept)) \<longrightarrow>
      df_get (DataFrame float_column ?kept) (str ''id'') = Some (map id_of ?kept)"
  proof
    assume a: "?kept \<noteq> [] \<and>
      (list_all (\<lambda>q. is_str (id_of q)) ?kept \<or> \<not> float_column (map id_of ?kept))"
    then have "column_cells float_column (map id_of ?kept) = map id_of ?kept"
      using same by blast
    with col a show "df_get (DataFrame float_column ?kept) (str ''id'') = Some (map id_of ?kept)"
      by simp
  qed
  from r one none col col' fresh_subseq [of "[]" ?ps] DataFrame_rows [of float_column ?kept]
  show ?thesis
    by blast
qed

theorem extract_jobs_to_dataframe_first_wins_witness:
  "list_all (\<lambda>f. wf_document (sample_fs f))
     (files_to_process [] (Some [str ''batch_20240105_a.json'', str ''batch_20240106_b.json'']))
   \<and> (\<exists>kept.
         extract_jobs_to_dataframe sample_float_column sample_fs []
             (Some [str ''batch_20240105_a.json'', str ''batch_20240106_b.json'']) =
           Inr (if kept = [] then None else Some (DataFrame sample_float_column kept))
         \<and> subseq kept
             (all_postings sample_fs
                (files_to_process []
                   (Some [str ''batch_20240105_a.json'', str ''batch_20240106_b.json''])))
         \<and> (\<forall>p \<in> set (all_postings sample_fs
                         (files_to_process []
                            (Some [str ''batch_20240105_a.json'', str ''batch_20240106_b.json'']))).
               truthy (id_of p) \<longrightarrow>
               map Some (filter (\<lambda>q. py_eq (id_of q) (id_of p)) kept) =
                 [find (\<lambda>q. py_eq (id_of q) (id_of p))
                    (all_postings sample_fs
                       (files_to_process []
                          (Some [str ''batch_20240105_a.json'', str ''batch_20240106_b.json''])))]))
   \<and> extract_jobs_to_dataframe sample_float_column sample_fs []
        (Some [str ''batch_20240105_a.json'', str ''batch_20240106_b.json'']) =
      Inr (Some (DataFrame sample_float_column
        [PDict [(str ''id'', PStr (str ''A1'')), (str ''intitule'', PStr (str ''Dev''))],
         PDict [(str ''id'', PStr (str ''A2''))],
         PDict [(str ''id'', PStr (str ''B7''))]]))
   \<and> df_get (DataFrame sample_float_column
        [PDict [(str ''id'', PStr (str ''A1'')), (str ''intitule'', PStr (str ''Dev''))],
         PDict [(str ''id'', PStr (str ''A2''))],
         PDict [(str ''id'', PStr (str ''B7''))]]) (str ''id'') =
      Some [PStr (str ''A1''), PStr (str ''A2''), PStr (str ''B7'')]
   \<and> list_all (\<lambda>f. wf_document (sample_fs f))
       (files_to_process [] (Some [str ''batch_20240108_d.json'']))
   \<and> extract_jobs_to_dataframe sample_float_column sample_fs []
        (Some [str ''batch_20240108_d.json'']) =
      Inr (Some (DataFrame sample_float_column
        [PDict [(str ''id'', PInt 9007199254740993), (str ''intitule'', PStr (str ''Grand''))],
         PDict [(str ''id'', PFloat 9007199254740992)],
         PDict [(str ''id'', PNaN)]]))
   \<and> df_get (DataFrame sample_float_column
        [PDict [(str ''id'', PInt 9007199254740993), (str ''intitule'', PStr (str ''Grand''))],
         PDict [(str ''id'', PFloat 9007199254740992)],
         PDict [(str ''id'', PNaN)]]) (str ''id'') =
      Some [PFloat 9007199254740992, PFloat 9007199254740992, PNaN]"
proof -
  let ?ab = "Some [str ''batch_20240105_a.json'', str ''batch_20240106_b.json'']"
  let ?d = "Some [str ''batch_20240108_d.json'']"
  let ?kept_ab = "[PDict [(str ''id'', PStr (str ''A1'')), (str ''intitule'', PStr (str ''Dev''))],
         PDict [(str ''id'', PStr (str ''A2''))],
         PDict [(str ''id'', PStr (str ''B7''))]]"
  let ?kept_d = "[PDict [(str ''id'', PInt 9007199254740993), (str ''intitule'', PStr (str ''Grand''))],
         PDict [(str ''id'', PFloat 9007199254740992)],
         PDict [(str ''id'', PNaN)]]"
  have wf: "list_all (\<lambda>f. wf_document (sample_fs f)) (files_to_process [] ?ab)"
    by (simp add: extraction_defs)
  have ev: "extract_jobs_to_dataframe sample_float_column sample_fs [] ?ab =
      Inr (Some (DataFrame sample_float_column ?kept_ab))"
    by (simp add: extraction_defs)
  have wf_d: "list_all (\<lambda>f. wf_document (sample_fs f)) (files_to_process [] ?d)"
    by (simp add: extraction_defs)
  have ev_d: "extract_jobs_to_dataframe sample_float_column sample_fs [] ?d =
      Inr (Some (DataFrame sample_float_column ?kept_d))"
    by (simp add: extraction_defs)
  have ids: "df_get (DataFrame sample_float_column ?kept_ab) (str ''id'') =
      Some [PStr (str ''A1''), PStr (str ''A2''), PStr (str ''B7'')]"
    by (simp add: DataFrame_def df_get_def column_cells_def sample_float_column_def
        dict_get_def str_def)
  have ids_d: "df_get (DataFrame sample_float_column ?kept_d) (str ''id'') =
      Some [PFloat 9007199254740992, PFloat 9007199254740992, PNaN]"
    by (simp add: DataFrame_def df_get_def column_cells_def sample_float_column_def
        dict_get_def str_def double_of_int_def nearest_double_def excess_bits.simps Let_def)
  from extract_jobs_to_dataframe_first_wins [OF wf, of sample_float_column] wf ev ids wf_d ev_d ids_d
  show ?thesis
    by blast
qed

text \<open>
  C9. On well-formed batch files, every posting of the frame that
  \<open>extract_jobs_to_dataframe\<close> returns has a true identifier: a posting whose \<open>id\<close> is missing,
  \<open>None\<close>, empty or otherwise false is never kept, and every cell of the \<open>id\<close> column of the
  frame is a true value. When no posting of the batches has a true identifier, the result
  is \<open>None\<close>, as it is when the batches hold no posting at all.
\<close>

theorem extract_jobs_to_dataframe_drops_falsy_ids:
  assumes "list_all (\<lambda>f. wf_document (fs f)) (files_to_process local_files file_list)"
  shows "\<exists>kept.
           extract_jobs_to_dataframe float_column fs local_files file_list =
             Inr (if kept = [] then None else Some (DataFrame float_column kept))
           \<and> subseq kept (all_postings fs (files_to_process local_files file_list))
           \<and> list_all (\<lambda>q. truthy (id_of q)) kept
           \<and> (list_all (\<lambda>p. \<not> truthy (id_of p))
                 (all_postings fs (files_to_process local_files file_list)) \<longrightarrow>
               extract_jobs_to_dataframe float_column fs local_files file_list = Inr None)
           \<and> (all_postings fs (files_to_process local_files file_list) = [] \<longrightarrow>
               extract_jobs_to_dataframe float_column fs local_files file_list = Inr None)
           \<and> (kept \<noteq> [] \<longrightarrow>
               (\<exists>ids. df_get (DataFrame float_column kept) (str ''id'') = Some ids
                  \<and> list_all truthy ids))"
proof -
  let ?ps = "all_postings fs (files_to_process local_files file_list)"
  let ?kept = "fresh [] ?ps"
  have r: "extract_jobs_to_dataframe float_column fs local_files file_list =
             Inr (if ?kept = [] then None else Some (DataFrame float_column ?kept))"
    using assms by (rule extract_jobs_to_dataframe_fresh)
  have t: "list_all (\<lambda>q. truthy (id_of q)) ?kept"
    using fresh_truthy by (auto simp: list_all_iff)
  have "?kept = []" if "list_all (\<lambda>p. \<not> truthy (id_of p)) ?ps"
  proof (rule ccontr)
    assume "?kept \<noteq> []"
    then obtain q where "q \<in> set ?kept"
      by (cases ?kept) auto
    then have "q \<in> set ?ps" "truthy (id_of q)"
      using fresh_subset fresh_truthy by blast+
    with that show False
      by (auto simp: list_all_iff)
  qed
  then have n: "list_all (\<lambda>p. \<not> truthy (id_of p)) ?ps \<longrightarrow>
                extract_jobs_to_dataframe float_column fs local_files file_list = Inr None"
    using r by simp
  have e: "?ps = [] \<longrightarrow>
           extract_jobs_to_dataframe float_column fs local_files file_list = Inr None"
    using r by auto
  have "list_all truthy (map id_of ?kept)"
    using t by (simp add: list_all_iff)
  then have "list_all truthy (column_cells float_column (map id_of ?kept))"
    by (rule column_cells_truthy)
  then have c: "?kept \<noteq> [] \<longrightarrow>
                (\<exists>ids. df_get (DataFrame float_column ?kept) (str ''id'') = Some ids
                   \<and> list_all truthy ids)"
    using DataFrame_id_column [OF _ t, of float_column] by blast
  from r t n e c fresh_subseq [of "[]" ?ps] show ?thesis
    by blast
qed

theorem extract_jobs_to_dataframe_drops_falsy_ids_witness:
  "list_all (\<lambda>f. wf_document (sample_fs f))
     (files_to_process [] (Some [str ''batch_20240107_c.json'']))
   \<and> list_all (\<lambda>p. \<not> truthy (id_of p))
       (all_postings sample_fs (files_to_process [] (Some [str ''batch_20240107_c.json''])))
   \<and> extract_jobs_to_dataframe sample_float_column sample_fs []
        (Some [str ''batch_20240107_c.json'']) = Inr None
   \<and> all_postings sample_fs (files_to_process [] (Some [str ''missing.json''])) = []
   \<and> extract_jobs_to_dataframe sample_float_column sample_fs []
        (Some [str ''missing.json'']) = Inr None"
proof -
  have wf: "list_all (\<lambda>f. wf_document (sample_fs f))
     (files_to_process [] (Some [str ''batch_20240107_c.json'']))"
    by (simp add: extraction_defs)
  have f: "list_all (\<lambda>p. \<not> truthy (id_of p))
       (all_postings sample_fs (files_to_process [] (Some [str ''batch_20240107_c.json''])))"
    by (simp add: extraction_defs)
  have wf': "list_all (\<lambda>f. wf_document (sample_fs f))
     (files_to_process [] (Some [str ''missing.json'']))"
    by (simp add: extraction_defs)
  have e: "all_postings sample_fs (files_to_process [] (Some [str ''missing.json''])) = []"
    by (simp add: extraction_defs)
  from extract_jobs_to_dataframe_drops_falsy_ids [OF wf, of sample_float_column]
    extract_jobs_to_dataframe_drops_falsy_ids [OF wf', of sample_float_column] wf f e
  show ?thesis
    by blast
qed

section \<open>Properties of the orchestrator\<close>

text \<open>
  C6. \<open>execute_etl_pipeline\<close> returns 0 as soon as a callee returns its failure value:
  \<open>None\<close> from the extraction, from the transformation (or from the keyword pass behind
  it), from the preparation or from the connection, \<open>False\<close> from the table creation; the
  calls made are then those up to the failing one and no later one. When every callee
  succeeds, all seven calls are made and the result is what \<open>load_jobs_to_database\<close> returns.
  In every run the calls made are a prefix of the seven stages in their order, and a count
  other than 0 is returned only after all seven.
\<close>

theorem execute_etl_pipeline_short_circuit:
  "(call_extract_by_date_range C (default_start_date today start_date) end_date = Inr None
      \<longrightarrow> execute_etl_pipeline C today start_date end_date = ([Extraction], Inr 0))
   \<and> (call_extract_by_date_range C (default_start_date today start_date) end_date
         = Inr (Some raw_df)
       \<and> call_transform_job_dataframe C (Some raw_df) = Inr None
      \<longrightarrow> execute_etl_pipeline C today start_date end_date
            = ([Extraction, Transformation], Inr 0))
   \<and> (call_extract_by_date_range C (default_start_date today start_date) end_date
         = Inr (Some raw_df)
       \<and> call_transform_job_dataframe C (Some raw_df) = Inr (Some transformed)
       \<and> call_apply_keyword_analysis C (Some transformed) = Inr None
      \<longrightarrow> execute_etl_pipeline C today start_date end_date
            = ([Extraction, Transformation, KeywordAnalysis], Inr 0))
   \<and> (call_extract_by_date_range C (default_start_date today start_date) end_date
         = Inr (Some raw_df)
       \<and> call_transform_job_dataframe C (Some raw_df) = Inr (Some transformed)
       \<and> call_apply_keyword_analysis C (Some transformed) = Inr (Some transformed_df)
       \<and> call_prepare_job_data_for_loading C (Some transformed_df) = Inr None
      \<longrightarrow> execute_etl_pipeline C today start_date end_date
            = ([Extraction, Transformation, KeywordAnalysis, Preparation], Inr 0))
   \<and> (call_extract_by_date_range C (default_start_date today start_date) end_date
         = Inr (Some raw_df)
       \<and> call_transform_job_dataframe C (Some raw_df) = Inr (Some transformed)
       \<and> call_apply_keyword_analysis C (Some transformed) = Inr (Some transformed_df)
       \<and> call_prepare_job_data_for_loading C (Some transformed_df) = Inr (Some load_ready_df)
       \<and> call_get_db_connection C = Inr None
      \<longrightarrow> execute_etl_pipeline C today start_date end_date
            = ([Extraction, Transformation, KeywordAnalysis, Preparation, Connection], Inr 0))
   \<and> (call_extract_by_date_range C (default_start_date today start_date) end_date
         = Inr (Some raw_df)
       \<and> call_transform_job_dataframe C (Some raw_df) = Inr (Some transformed)
       \<and> call_apply_keyword_analysis C (Some transformed) = Inr (Some transformed_df)
       \<and> call_prepare_job_data_for_loading C (Some transformed_df) = Inr (Some load_ready_df)
       \<and> call_get_db_connection C = Inr (Some engine)
       \<and> call_create_jobs_table C (Some engine) = Inr False
      \<longrightarrow> execute_etl_pipeline C today start_date end_date
            = ([Extraction, Transformation, KeywordAnalysis, Preparation, Connection,
                TableCreation], Inr 0))
   \<and> (call_extract_by_date_range C (default_start_date today start_date) end_date
         = Inr (Some raw_df)
       \<and> call_transform_job_dataframe C (Some raw_df) = Inr (Some transformed)
       \<and> call_apply_keyword_analysis C (Some transformed) = Inr (Some transformed_df)
       \<and> call_prepare_job_data_for_loading C (Some transformed_df) = Inr (Some load_ready_df)
       \<and> call_get_db_connection C = Inr (Some engine)
       \<and> call_create_jobs_table C (Some engine) = Inr True
      \<longrightarrow> execute_etl_pipeline C today start_date end_date
            = ([Extraction, Transformation, KeywordAnalysis, Preparation, Connection,
                TableCreation, Loading],
               call_load_jobs_to_database C (Some load_ready_df) (Some engine)))
   \<and> prefix (fst (execute_etl_pipeline C today start_date end_date)) all_stages
   \<and> (snd (execute_etl_pipeline C today start_date end_date) = Inr n \<and> n \<noteq> 0
      \<longrightarrow> fst (execute_etl_pipeline C today start_date end_date) = all_stages)"
  by (simp add: execute_etl_pipeline_def Let_def all_stages_def
      split: sum.splits option.splits)

theorem execute_etl_pipeline_short_circuit_witness:
  "execute_etl_pipeline
     (sample_callees\<lparr>call_extract_by_date_range := (\<lambda>s e. Inr None)\<rparr>)
     (str ''20240105'') None None = ([Extraction], Inr 0)
   \<and> execute_etl_pipeline
     (sample_callees\<lparr>call_transform_job_dataframe := (\<lambda>df. Inr None)\<rparr>)
     (str ''20240105'') None None = ([Extraction, Transformation], Inr 0)
   \<and> execute_etl_pipeline
     (sample_callees\<lparr>call_apply_keyword_analysis := (\<lambda>df. Inr None)\<rparr>)
     (str ''20240105'') None None = ([Extraction, Transformation, KeywordAnalysis], Inr 0)
   \<and> execute_etl_pipeline
     (sample_callees\<lparr>call_prepare_job_data_for_loading := (\<lambda>df. Inr None)\<rparr>)
     (str ''20240105'') None None
       = ([Extraction, Transformation, KeywordAnalysis, Preparation], Inr 0)
   \<and> execute_etl_pipeline
     (sample_callees\<lparr>call_get_db_connection := Inr None\<rparr>)
     (str ''20240105'') None None
       = ([Extraction, Transformation, KeywordAnalysis, Preparation, Connection], Inr 0)
   \<and> execute_etl_pipeline
     (sample_callees\<lparr>call_create_jobs_table := (\<lambda>engine. Inr False)\<rparr>)
     (str ''20240105'') None None
       = ([Extraction, Transformation, KeywordAnalysis, Preparation, Connection,
           TableCreation], Inr 0)
   \<and> execute_etl_pipeline sample_callees (str ''20240105'') None None = (all_stages, Inr 2)
   \<and> prefix (fst (execute_etl_pipeline sample_callees (str ''20240105'') None None)) all_stages
   \<and> (2 :: int) \<noteq> 0"
proof -
  let ?t = "str ''20240105''"
  let ?e = "Engine (str ''jobs'')"
  note w = execute_etl_pipeline_short_circuit
    [where today = ?t and start_date = None and end_date = None and raw_df = sample_frame
       and transformed = sample_frame and transformed_df = sample_frame
       and load_ready_df = sample_frame and engine = ?e and n = 2]
  show ?thesis
    using w [where C = "sample_callees\<lparr>call_extract_by_date_range := (\<lambda>s e. Inr None)\<rparr>"]
      w [where C = "sample_callees\<lparr>call_transform_job_dataframe := (\<lambda>df. Inr None)\<rparr>"]
      w [where C = "sample_callees\<lparr>call_apply_keyword_analysis := (\<lambda>df. Inr None)\<rparr>"]
      w [where C = "sample_callees\<lparr>call_prepare_job_data_for_loading := (\<lambda>df. Inr None)\<rparr>"]
      w [where C = "sample_callees\<lparr>call_get_db_connection := Inr None\<rparr>"]
      w [where C = "sample_callees\<lparr>call_create_jobs_table := (\<lambda>engine. Inr False)\<rparr>"]
      w [where C = sample_callees]
    by (simp add: sample_callees_def all_stages_def)
qed

end
